theory Spec2Isabelle
  imports Main
begin

section \<open>Data model\<close>

text \<open>
  The development embeds \<^verbatim>\<open>src/api/views.py\<close>: the module-level Poppler setup and the
  two views \<^verbatim>\<open>JpgToPdfView\<close> and \<^verbatim>\<open>PdfToJpgView\<close>.

  A \<open>string\<close> is a list of bytes. A byte string of the program is itself; a text
  (\<^verbatim>\<open>str\<close>) is held as its UTF-8 bytes, so that concatenation, comparison, search for a
  substring and cutting at a newline or at a NUL are the same on the model as on the text.
\<close>

type_synonym bytes = string

text \<open>
  Python exceptions as values. Every handler of the source is either \<^verbatim>\<open>except KeyError\<close> or
  \<^verbatim>\<open>except Exception\<close>, so two classes are enough: \<open>KeyError\<close> (with its subclasses, such as
  Django's \<^verbatim>\<open>MultiValueDictKeyError\<close>) and every other subclass of \<^verbatim>\<open>Exception\<close>. The
  argument is \<^verbatim>\<open>str(e)\<close>.
\<close>

datatype pyexn = KeyError string | OtherException string

fun str_exn :: "pyexn \<Rightarrow> string" where
  "str_exn (KeyError m) = m"
| "str_exn (OtherException m) = m"

text \<open>
  An uploaded file: its declared name and the bytes \<^verbatim>\<open>read()\<close> returns. An upload that
  reaches a view has been received in full by the multipart parser, so \<^verbatim>\<open>read()\<close> is a
  plain read of buffered content.
\<close>

record uploaded_file =
  name :: string
  read :: bytes

text \<open>
  The two multi-value dictionaries of a parsed multipart body: a key maps to the list of
  values sent under it, in upload order. The multipart parser creates a key only when it
  appends a value, so the empty list stands for an absent key.
\<close>

record request =
  FILES :: "string \<Rightarrow> uploaded_file list"
  POST :: "string \<Rightarrow> string list"

text \<open>
  The framework parses the body lazily, when \<^verbatim>\<open>request.FILES\<close> or \<^verbatim>\<open>request.POST\<close> is first
  read, and both views allow the multipart parser only. A body that parser accepts gives
  the two dictionaries; for any other body (another media type, malformed multipart) the
  read raises (\<^verbatim>\<open>UnsupportedMediaType\<close>, \<^verbatim>\<open>ParseError\<close>).
\<close>

datatype http_request = Parsed request | Unparsable pyexn

fun request_FILES :: "http_request \<Rightarrow> pyexn + (string \<Rightarrow> uploaded_file list)" where
  "request_FILES (Parsed req) = Inr (FILES req)"
| "request_FILES (Unparsable e) = Inl e"

fun request_POST :: "http_request \<Rightarrow> pyexn + (string \<Rightarrow> string list)" where
  "request_POST (Parsed req) = Inr (POST req)"
| "request_POST (Unparsable e) = Inl e"

text \<open>
  A response: status, body, and the two headers the views set. \<open>content_type = None\<close> is a
  response built without that argument (the framework's default type);
  \<open>content_disposition\<close> is the \<^verbatim>\<open>Content-Disposition\<close> header, when the view sets it.
\<close>

record response =
  status :: nat
  content :: bytes
  content_type :: "string option"
  content_disposition :: "string option"

text \<open>\<^verbatim>\<open>HttpResponse(body, status=st)\<close>, with the default content type.\<close>

definition HttpResponse :: "bytes \<Rightarrow> nat \<Rightarrow> response" where
  "HttpResponse body st =
     \<lparr>status = st, content = body, content_type = None, content_disposition = None\<rparr>"

text \<open>The keyword arguments of \<^verbatim>\<open>pdf2image.convert_from_bytes\<close> that the view may pass.\<close>

record conversion_options =
  fmt :: string
  use_pdftocairo :: bool
  timeout :: "nat option"
  poppler_path :: "string option"

text \<open>The arguments of \<^verbatim>\<open>Image.save\<close>: \<^verbatim>\<open>format='PNG', compress_level=n\<close> or
  \<^verbatim>\<open>format='JPEG', quality=n\<close>.\<close>

datatype save_format = PNG nat | JPEG nat

text \<open>\<^verbatim>\<open>subprocess.run(..., capture_output=True, text=True)\<close> returns a completed process.\<close>

record completed_process =
  returncode :: int
  stdout :: string
  stderr :: string

text \<open>
  The calls that leave the process are recorded, in order: filesystem probes
  (\<^verbatim>\<open>Path.exists\<close>), the installer subprocess, and the two conversion libraries.
\<close>

datatype call =
    PathExists string
  | RunInstaller string
  | ConvertFromBytes bytes conversion_options
  | Img2pdfConvert "bytes list"

text \<open>The process-wide state: \<^verbatim>\<open>os.environ\<close> and the calls made so far.\<close>

record world =
  environ :: "string \<rightharpoonup> string"
  calls :: "call list"

definition log_call :: "call \<Rightarrow> world \<Rightarrow> world" where
  "log_call c w = w\<lparr>calls := calls w @ [c]\<rparr>"

text \<open>
  What the source consumes and does not implement is a parameter.
  \<^item> The machine: \<open>base_dir\<close> is \<^verbatim>\<open>str(Path(__file__).parent.parent.parent)\<close>, \<open>path_exists\<close>
    the filesystem's answer for a path, \<open>run_installer\<close> the run of \<^verbatim>\<open>install_poppler.py\<close>.
  \<^item> The libraries: \<^verbatim>\<open>pdf2image\<close>, Pillow's \<^verbatim>\<open>Image.save\<close>, \<^verbatim>\<open>img2pdf\<close>, and the bytes
    \<^verbatim>\<open>ZipFile\<close> holds once the given entries are written and the archive is closed. The
    subprocess, the two converters and \<^verbatim>\<open>Image.save\<close> either return or raise.
  \<^item> Tables of the language and the framework: \<open>str_lower\<close> is \<^verbatim>\<open>str.lower\<close> (Unicode case
    mapping), \<open>py_repr\<close> is \<^verbatim>\<open>repr\<close> of a text, \<open>mime_encode\<close> is the encoded word
    \<^verbatim>\<open>email.header.Header(v, 'utf-8', maxlinelen=sys.maxsize).encode()\<close>, and
    \<open>struct_error\<close> is the message of the \<^verbatim>\<open>struct.error\<close> raised for a number that does
    not fit an unsigned short.
\<close>

record 'img externals =
  base_dir :: string
  path_exists :: "string \<Rightarrow> bool"
  run_installer :: "string \<Rightarrow> pyexn + completed_process"
  convert_from_bytes :: "bytes \<Rightarrow> conversion_options \<Rightarrow> pyexn + 'img list"
  image_save :: "'img \<Rightarrow> save_format \<Rightarrow> pyexn + bytes"
  img2pdf_convert :: "bytes list \<Rightarrow> pyexn + bytes"
  zip_getvalue :: "(string \<times> bytes) list \<Rightarrow> bytes"
  str_lower :: "string \<Rightarrow> string"
  py_repr :: "string \<Rightarrow> string"
  mime_encode :: "string \<Rightarrow> string"
  struct_error :: string

section \<open>Python and Django primitives\<close>

text \<open>Truthiness of an optional string: \<^verbatim>\<open>None\<close> and \<^verbatim>\<open>''\<close> are false.\<close>

fun truthy :: "string option \<Rightarrow> bool" where
  "truthy None = False"
| "truthy (Some s) = (s \<noteq> [])"

text \<open>\<^verbatim>\<open>MultiValueDict.getlist(key)\<close>: all values of the key, \<^verbatim>\<open>[]\<close> when it is absent.\<close>

definition getlist :: "(string \<Rightarrow> 'a list) \<Rightarrow> string \<Rightarrow> 'a list" where
  "getlist d k = d k"

text \<open>\<^verbatim>\<open>MultiValueDict.__getitem__(key)\<close>: the last value, \<^verbatim>\<open>KeyError\<close> when the key is absent.\<close>

definition getitem :: "(string \<Rightarrow> 'a list) \<Rightarrow> string \<Rightarrow> pyexn + 'a" where
  "getitem d k = (case d k of [] \<Rightarrow> Inl (KeyError k) | x # xs \<Rightarrow> Inr (last (x # xs)))"

text \<open>\<^verbatim>\<open>QueryDict.get(key, default)\<close>: the last value, the default when there is none.\<close>

definition get_default :: "(string \<Rightarrow> string list) \<Rightarrow> string \<Rightarrow> string \<Rightarrow> string" where
  "get_default d k dflt = (case d k of [] \<Rightarrow> dflt | x # xs \<Rightarrow> last (x # xs))"

text \<open>
  \<^verbatim>\<open>str(p / c)\<close> for a POSIX path \<open>p\<close> and a relative component \<open>c\<close>: nothing is put before
  the component when \<open>p\<close> is the current directory, and no second separator after a root.
\<close>

definition join1 :: "string \<Rightarrow> string \<Rightarrow> string" where
  "join1 p c =
     (if p = ''.'' then c
      else if p \<noteq> [] \<and> last p = CHR ''/'' then p @ c
      else p @ ''/'' @ c)"

definition joinpath :: "string \<Rightarrow> string list \<Rightarrow> string" where
  "joinpath base parts = foldl join1 base parts"

text \<open>
  \<^verbatim>\<open>Path(p).exists()\<close>: \<^verbatim>\<open>False\<close> for a path that holds a NUL (pathlib catches the
  \<^verbatim>\<open>ValueError\<close> of \<^verbatim>\<open>os.stat\<close>), the filesystem's answer otherwise. The filesystem
  is taken to answer every probe: an error of \<^verbatim>\<open>os.stat\<close> other than a missing entry,
  which pathlib lets through, is not part of the model.
\<close>

definition Path_exists :: "'img externals \<Rightarrow> string \<Rightarrow> bool" where
  "Path_exists X p = (CHR 0x00 \<notin> set p \<and> path_exists X p)"

text \<open>
  \<^verbatim>\<open>os.environ[k] = v\<close>: \<^verbatim>\<open>putenv\<close> refuses a value that holds a NUL with a \<^verbatim>\<open>ValueError\<close>,
  and then nothing is stored.
\<close>

definition environ_setitem :: "string \<Rightarrow> string \<Rightarrow> world \<Rightarrow> pyexn + world" where
  "environ_setitem k v w =
     (if CHR 0x00 \<in> set v then Inl (OtherException ''embedded null byte'')
      else Inr (w\<lparr>environ := (environ w)(k \<mapsto> v)\<rparr>))"

text \<open>
  Storing a response header. The framework raises \<^verbatim>\<open>BadHeaderError\<close> for a value with a
  carriage return or a line feed. Any other value is stored: as it is when it is
  Latin-1 text (in UTF-8, when no byte is \<open>0xC4\<close> or above), as a MIME encoded word
  otherwise.
\<close>

definition has_newline :: "string \<Rightarrow> bool" where
  "has_newline v = (CHR 0x0A \<in> set v \<or> CHR 0x0D \<in> set v)"

definition is_latin1 :: "string \<Rightarrow> bool" where
  "is_latin1 v = list_all (\<lambda>c. (of_char c :: nat) < 196) v"

definition header_text :: "'img externals \<Rightarrow> string \<Rightarrow> string" where
  "header_text X v = (if is_latin1 v then v else mime_encode X v)"

definition convert_header :: "'img externals \<Rightarrow> string \<Rightarrow> pyexn + string" where
  "convert_header X v =
     (if has_newline v
      then Inl (OtherException
                  (''Header values can't contain newlines (got '' @ py_repr X v @ '')''))
      else Inr (header_text X v))"

text \<open>
  \<^verbatim>\<open>response = HttpResponse(body, content_type=ctype)\<close> followed by
  \<^verbatim>\<open>response['Content-Disposition'] = f'attachment; filename="{filename}"'\<close>: the two
  headers are stored in this order, and the first refusal is raised.
\<close>

definition attachment_response ::
  "'img externals \<Rightarrow> bytes \<Rightarrow> string \<Rightarrow> string \<Rightarrow> pyexn + response" where
  \<open>attachment_response X body ctype filename =
     (case convert_header X ctype of
        Inl e \<Rightarrow> Inl e
      | Inr ct \<Rightarrow>
          (case convert_header X (''attachment; filename="'' @ filename @ ''"'') of
             Inl e \<Rightarrow> Inl e
           | Inr cd \<Rightarrow>
               Inr \<lparr>status = 200, content = body, content_type = Some ct,
                    content_disposition = Some cd\<rparr>))\<close>

text \<open>
  \<^verbatim>\<open>ZipFile.writestr(name, data)\<close> on an archive in memory. The entry is stored under the
  name cut at its first NUL, and the local header packs the length of the stored name
  into an unsigned short: a name of more than 65535 bytes raises \<^verbatim>\<open>struct.error\<close>.
\<close>

definition stored_name :: "string \<Rightarrow> string" where
  "stored_name n = takeWhile (\<lambda>c. c \<noteq> CHR 0x00) n"

definition zip_writestr :: "'img externals \<Rightarrow> string \<Rightarrow> bytes \<Rightarrow> pyexn + string \<times> bytes" where
  "zip_writestr X n data =
     (if 65535 < length (stored_name n) then Inl (OtherException (struct_error X))
      else Inr (stored_name n, data))"

text \<open>\<^verbatim>\<open>str(n)\<close> for a natural number.\<close>

function string_of_nat :: "nat \<Rightarrow> string" where
  "string_of_nat n =
     (if n < 10 then [char_of (48 + n)]
      else string_of_nat (n div 10) @ [char_of (48 + n mod 10)])"
  by pat_completeness auto
termination
  by (relation "measure id") auto

declare string_of_nat.simps [simp del]

section \<open>JpgToPdfView\<close>

text \<open>The body of the \<^verbatim>\<open>try\<close> block of \<^verbatim>\<open>JpgToPdfView.post\<close>.\<close>

definition JpgToPdfView_post_try ::
  "'img externals \<Rightarrow> http_request \<Rightarrow> world \<Rightarrow> (pyexn + response) \<times> world" where
  "JpgToPdfView_post_try X r w =
     (case request_FILES r of
        Inl e \<Rightarrow> (Inl e, w)
      | Inr files \<Rightarrow>
          (let images = getlist files ''images''
           in if images = [] then (Inr (HttpResponse ''No images provided'' 400), w)
              else (let image_data = map read images;
                        w1 = log_call (Img2pdfConvert image_data) w
                    in case img2pdf_convert X image_data of
                         Inl e \<Rightarrow> (Inl e, w1)
                       | Inr pdf_bytes \<Rightarrow>
                           (attachment_response X pdf_bytes ''application/pdf''
                              ''converted.pdf'', w1))))"

text \<open>\<^verbatim>\<open>except Exception as e\<close>: every exception becomes a 500 carrying \<^verbatim>\<open>str(e)\<close>.\<close>

definition JpgToPdfView_post ::
  "'img externals \<Rightarrow> http_request \<Rightarrow> world \<Rightarrow> response \<times> world" where
  "JpgToPdfView_post X r w =
     (case JpgToPdfView_post_try X r w of
        (Inr resp, w') \<Rightarrow> (resp, w')
      | (Inl e, w') \<Rightarrow> (HttpResponse (''Conversion failed: '' @ str_exn e) 500, w'))"

section \<open>Module-level Poppler setup\<close>

definition POPPLER_PATH :: string where
  "POPPLER_PATH = ''POPPLER_PATH''"

definition possible_paths :: "'img externals \<Rightarrow> string list" where
  "possible_paths X =
     [joinpath (base_dir X) [''poppler'', ''poppler-23.11.0'', ''Library'', ''bin''],
      joinpath (base_dir X) [''poppler'', ''Library'', ''bin''],
      joinpath (base_dir X) [''poppler'', ''bin''],
      joinpath (base_dir X) [''poppler-23.11.0'', ''Library'', ''bin'']]"

text \<open>
  \<^verbatim>\<open>for path in paths: if path.exists(): poppler_path = str(path); break\<close>. Each test is
  recorded; the loop stops at the first path that exists.
\<close>

fun first_existing :: "'img externals \<Rightarrow> string list \<Rightarrow> world \<Rightarrow> string option \<times> world" where
  "first_existing X [] w = (None, w)"
| "first_existing X (p # ps) w =
     (let w1 = log_call (PathExists p) w
      in if Path_exists X p then (Some p, w1) else first_existing X ps w1)"

text \<open>\<^verbatim>\<open>needle in haystack\<close> on strings.\<close>

fun contains :: "string \<Rightarrow> string \<Rightarrow> bool" where
  "contains needle [] = (needle = [])"
| "contains needle (c # cs) =
     (take (length needle) (c # cs) = needle \<or> contains needle cs)"

text \<open>
  \<^verbatim>\<open>re.search(r"Poppler installed at: (.*)", s)\<close> and \<^verbatim>\<open>match.group(1)\<close>: the leftmost
  occurrence of the literal prefix (with its trailing space), then the rest of that line,
  since \<^verbatim>\<open>.\<close> matches every character except the newline.
\<close>

definition installed_prefix :: string where
  "installed_prefix = ''Poppler installed at: ''"

fun re_search_installed :: "string \<Rightarrow> string option" where
  "re_search_installed [] = None"
| "re_search_installed (c # cs) =
     (if take (length installed_prefix) (c # cs) = installed_prefix
      then Some (takeWhile (\<lambda>x. x \<noteq> CHR 0x0A) (drop (length installed_prefix) (c # cs)))
      else re_search_installed cs)"

text \<open>
  \<^verbatim>\<open>os.environ['POPPLER_PATH'] = str(path)\<close> for a path on which \<^verbatim>\<open>path.exists()\<close> has just
  answered \<^verbatim>\<open>True\<close> (lines 35 and 121). Such a path holds no NUL, so the assignment stores
  the value; \<open>first_existing_assignable\<close> below proves it from \<open>environ_setitem\<close>.
\<close>

definition set_poppler_path :: "string \<Rightarrow> world \<Rightarrow> world" where
  "set_poppler_path p w = w\<lparr>environ := (environ w)(POPPLER_PATH \<mapsto> p)\<rparr>"

text \<open>
  The \<^verbatim>\<open>else\<close> branch of the setup: the \<^verbatim>\<open>try\<close> block that runs \<^verbatim>\<open>install_poppler.py\<close>.
  A raise of \<^verbatim>\<open>subprocess.run\<close>, or of the assignment to \<^verbatim>\<open>os.environ\<close>, is caught by
  \<^verbatim>\<open>except Exception\<close> and only logged.
\<close>

definition install_poppler :: "'img externals \<Rightarrow> world \<Rightarrow> world" where
  "install_poppler X w =
     (let install_script = joinpath (base_dir X) [''install_poppler.py''];
          w1 = log_call (PathExists install_script) w
      in if Path_exists X install_script
         then (let w2 = log_call (RunInstaller install_script) w1
               in case run_installer X install_script of
                    Inl e \<Rightarrow> w2
                  | Inr result \<Rightarrow>
                      if returncode result = 0 \<and> contains ''Poppler installed at:'' (stdout result)
                      then (case re_search_installed (stdout result) of
                              Some p \<Rightarrow>
                                (case environ_setitem POPPLER_PATH p w2 of
                                   Inl e \<Rightarrow> w2
                                 | Inr w3 \<Rightarrow> w3)
                            | None \<Rightarrow> w2)
                      else w2)
         else w1)"

definition module_setup :: "'img externals \<Rightarrow> world \<Rightarrow> world" where
  "module_setup X w =
     (if \<not> truthy (environ w POPPLER_PATH)
      then (case first_existing X (possible_paths X) w of
              (found, w1) \<Rightarrow>
                if truthy found
                then (case found of Some p \<Rightarrow> set_poppler_path p w1 | None \<Rightarrow> w1)
                else install_poppler X w1)
      else w)"

section \<open>PdfToJpgView\<close>

text \<open>\<^verbatim>\<open>head\<close>: \<^verbatim>\<open>HttpResponse(status=200)\<close>, with the empty default content.\<close>

definition PdfToJpgView_head ::
  "'img externals \<Rightarrow> http_request \<Rightarrow> world \<Rightarrow> response \<times> world" where
  "PdfToJpgView_head X r w = (HttpResponse [] 200, w)"

text \<open>
  Resolving the toolchain path for one request: the cached value, else a probe of two
  candidates (which stores a match in the environment), then the check that the path
  still exists, which clears the local variable only.
\<close>

definition find_poppler :: "'img externals \<Rightarrow> world \<Rightarrow> string option \<times> world" where
  "find_poppler X w =
     (let cached = environ w POPPLER_PATH;
          (resolved, w1) =
            (if \<not> truthy cached
             then (case first_existing X
                          [joinpath (base_dir X) [''poppler'', ''poppler-23.11.0'', ''Library'', ''bin''],
                           joinpath (base_dir X) [''poppler'', ''Library'', ''bin'']] w of
                     (Some p, w') \<Rightarrow> (Some p, set_poppler_path p w')
                   | (None, w') \<Rightarrow> (cached, w'))
             else (cached, w))
      in case resolved of
           None \<Rightarrow> (None, w1)
         | Some p \<Rightarrow>
             if p \<noteq> []
             then (let w2 = log_call (PathExists p) w1
                   in if \<not> Path_exists X p then (None, w2) else (Some p, w2))
             else (Some p, w1))"

text \<open>The two dictionaries of keyword arguments; \<^verbatim>\<open>poppler_path\<close> is added only when truthy.\<close>

definition first_options :: "string \<Rightarrow> string option \<Rightarrow> conversion_options" where
  "first_options format pp =
     \<lparr>fmt = format, use_pdftocairo = True, timeout = Some 60,
      poppler_path = (if truthy pp then pp else None)\<rparr>"

definition second_options :: "string \<Rightarrow> string option \<Rightarrow> conversion_options" where
  "second_options format pp =
     \<lparr>fmt = format, use_pdftocairo = False, timeout = None,
      poppler_path = (if truthy pp then pp else None)\<rparr>"

definition conversion_failed_message :: string where
  "conversion_failed_message =
     ''PDF conversion failed. The PDF might be corrupted, password-protected, or Poppler is not properly installed.''"

definition no_images_message :: string where
  "no_images_message = ''Failed to extract images from PDF (no images extracted)''"

text \<open>
  The nested \<^verbatim>\<open>try\<close> blocks around \<^verbatim>\<open>convert_from_bytes\<close>: \<open>Inr\<close> is the list of pages,
  \<open>Inl\<close> the response returned from the inner \<^verbatim>\<open>except\<close>.
\<close>

definition rasterize ::
  "'img externals \<Rightarrow> string \<Rightarrow> bytes \<Rightarrow> string option \<Rightarrow> world \<Rightarrow> (response + 'img list) \<times> world" where
  "rasterize X format pdf_content pp w =
     (let o1 = first_options format pp;
          w1 = log_call (ConvertFromBytes pdf_content o1) w
      in case convert_from_bytes X pdf_content o1 of
           Inr images \<Rightarrow> (Inr images, w1)
         | Inl first_error \<Rightarrow>
             (let o2 = second_options format pp;
                  w2 = log_call (ConvertFromBytes pdf_content o2) w1
              in case convert_from_bytes X pdf_content o2 of
                   Inr images \<Rightarrow> (Inr images, w2)
                 | Inl second_error \<Rightarrow> (Inl (HttpResponse conversion_failed_message 500), w2)))"

text \<open>
  \<^verbatim>\<open>image.save(buffer, ...)\<close> with the arguments the view chooses by the test
  \<^verbatim>\<open>format.lower() == 'png'\<close>, which lowercases the (already lowercased) format once more.
\<close>

definition encode_page :: "'img externals \<Rightarrow> string \<Rightarrow> 'img \<Rightarrow> pyexn + bytes" where
  "encode_page X format img =
     (if str_lower X format = ''png'' then image_save X img (PNG 1)
      else image_save X img (JPEG 95))"

text \<open>
  The loop over \<^verbatim>\<open>enumerate(images)\<close> that fills the archive, started at index \<open>i\<close>: each
  page is saved and then written under its name. The result is the list of entries
  written, in order, or the first raise of \<^verbatim>\<open>save\<close> or of \<^verbatim>\<open>writestr\<close>.
\<close>

fun zip_pages :: "'img externals \<Rightarrow> string \<Rightarrow> nat \<Rightarrow> 'img list \<Rightarrow> pyexn + (string \<times> bytes) list" where
  "zip_pages X format i [] = Inr []"
| "zip_pages X format i (img # rest) =
     (case encode_page X format img of
        Inl e \<Rightarrow> Inl e
      | Inr data \<Rightarrow>
          (case zip_writestr X (''page_'' @ string_of_nat (i + 1) @ ''.'' @ format) data of
             Inl e \<Rightarrow> Inl e
           | Inr entry \<Rightarrow>
               (case zip_pages X format (i + 1) rest of
                  Inl e \<Rightarrow> Inl e
                | Inr entries \<Rightarrow> Inr (entry # entries))))"

text \<open>Packaging a non-empty list of pages (lines 173 to 215): one image, or an archive.\<close>

definition package :: "'img externals \<Rightarrow> string \<Rightarrow> 'img list \<Rightarrow> pyexn + response" where
  "package X format images =
     (if length images = 1
      then (case encode_page X format (images ! 0) of
              Inl e \<Rightarrow> Inl e
            | Inr output \<Rightarrow>
                attachment_response X output (''image/'' @ format) (''converted.'' @ format))
      else (case zip_pages X format 0 images of
              Inl e \<Rightarrow> Inl e
            | Inr entries \<Rightarrow>
                attachment_response X (zip_getvalue X entries) ''application/zip''
                  ''converted.zip''))"

text \<open>Lines 170 to 215: what the handler does with the pages rasterization returned.\<close>

definition after_rasterize :: "'img externals \<Rightarrow> string \<Rightarrow> 'img list \<Rightarrow> pyexn + response" where
  "after_rasterize X format images =
     (if images = [] then Inr (HttpResponse no_images_message 500)
      else package X format images)"

text \<open>The body of the outer \<^verbatim>\<open>try\<close> block of \<^verbatim>\<open>PdfToJpgView.post\<close>.\<close>

definition PdfToJpgView_post_try ::
  "'img externals \<Rightarrow> http_request \<Rightarrow> world \<Rightarrow> (pyexn + response) \<times> world" where
  "PdfToJpgView_post_try X r w =
     (case request_FILES r of
        Inl e \<Rightarrow> (Inl e, w)
      | Inr files \<Rightarrow>
          (case getitem files ''pdf'' of
             Inl e \<Rightarrow> (Inl e, w)
           | Inr pdf_file \<Rightarrow>
               (case request_POST r of
                  Inl e \<Rightarrow> (Inl e, w)
                | Inr form \<Rightarrow>
                    (let format = str_lower X (get_default form ''format'' ''jpg'');
                         pdf_content = read pdf_file
                     in case find_poppler X w of
                          (pp, w1) \<Rightarrow>
                            (case rasterize X format pdf_content pp w1 of
                               (Inl resp, w2) \<Rightarrow> (Inr resp, w2)
                             | (Inr images, w2) \<Rightarrow> (after_rasterize X format images, w2))))))"

text \<open>
  The two outer handlers, in the source's order: \<^verbatim>\<open>except KeyError\<close>, then
  \<^verbatim>\<open>except Exception as e\<close>.
\<close>

fun outer_handlers :: "pyexn + response \<Rightarrow> response" where
  "outer_handlers (Inr resp) = resp"
| "outer_handlers (Inl (KeyError k)) = HttpResponse ''No PDF file uploaded'' 400"
| "outer_handlers (Inl (OtherException m)) = HttpResponse (''Conversion failed: '' @ m) 500"

definition PdfToJpgView_post ::
  "'img externals \<Rightarrow> http_request \<Rightarrow> world \<Rightarrow> response \<times> world" where
  "PdfToJpgView_post X r w =
     (case PdfToJpgView_post_try X r w of (result, w') \<Rightarrow> (outer_handlers result, w'))"

section \<open>Observing a run\<close>

text \<open>The calls a handler added to the record, and the rasterization calls among them.\<close>

definition new_calls :: "world \<Rightarrow> world \<Rightarrow> call list" where
  "new_calls w w' = drop (length (calls w)) (calls w')"

fun is_conversion :: "call \<Rightarrow> bool" where
  "is_conversion (ConvertFromBytes b opts) = True"
| "is_conversion c = False"

section \<open>Concrete inputs\<close>

text \<open>
  Stand-ins for the language tables, right on the texts the examples use: lowercasing of
  the letters A to Z (the examples hold no other cased letter), \<^verbatim>\<open>repr\<close> of a text of
  printable characters, carriage returns and line feeds, and the encoded words of the
  two header values built from the format \<open>euro\<close>, the euro sign in UTF-8, which is not
  Latin-1.
\<close>

definition ascii_lower_char :: "char \<Rightarrow> char" where
  "ascii_lower_char c =
     (let n = (of_char c :: nat)
      in if 65 \<le> n \<and> n \<le> 90 then char_of (n + 32) else c)"

definition ascii_lower :: "string \<Rightarrow> string" where
  "ascii_lower s = map ascii_lower_char s"

definition ascii_repr :: "string \<Rightarrow> string" where
  "ascii_repr s =
     [CHR 0x27]
     @ concat (map (\<lambda>c. if c = CHR 0x0A then [CHR 0x5C, CHR ''n'']
                         else if c = CHR 0x0D then [CHR 0x5C, CHR ''r''] else [c]) s)
     @ [CHR 0x27]"


definition euro :: string where
  "euro = [CHR 0xE2, CHR 0x82, CHR 0xAC]"

definition mime_table :: "string \<Rightarrow> string" where
  \<open>mime_table v =
     (if v = ''image/'' @ euro then ''=?utf-8?b?aW1hZ2Uv4oKs?=''
      else if v = ''attachment; filename="converted.'' @ euro @ ''"''
      then ''=?utf-8?b?YXR0YWNobWVudDsgZmlsZW5hbWU9ImNvbnZlcnRlZC7igqwi?=''
      else [])\<close>

text \<open>
  A deployment used to run the handlers on concrete requests. Pages are numbered; the
  converters' answers are chosen by the uploaded bytes, so that one deployment shows a
  one-page document, a three-page document, a document without pages, documents the
  first backend cannot render, and failures of either library.
\<close>

definition demo :: "nat externals" where
  "demo =
     \<lparr>base_dir = ''/srv/backend'',
      path_exists = (\<lambda>p. p = ''/srv/backend/poppler/Library/bin''),
      run_installer =
        (\<lambda>script. Inr \<lparr>returncode = 0,
                        stdout = ''Downloading'' @ [CHR 0x0A]
                                 @ ''Poppler installed at: /opt/poppler/bin'' @ [CHR 0x0A],
                        stderr = []\<rparr>),
      convert_from_bytes =
        (\<lambda>b opts.
           if b = ''one page'' then Inr [1]
           else if b = ''three pages'' then Inr [1, 2, 3]
           else if b = ''blank'' then Inr []
           else if b = ''slow'' then
             (if use_pdftocairo opts then Inl (OtherException ''timed out'') else Inr [4])
           else if b = ''flaky'' then
             (if use_pdftocairo opts then Inl (KeyError ''Root'') else Inr [4])
           else if b = ''torn'' then
             (if use_pdftocairo opts then Inl (OtherException ''timed out'')
              else Inl (KeyError ''Pages''))
           else if b = ''odd'' then Inl (KeyError ''Pages'')
           else if b = ''unwritable'' then Inr [0]
           else if b = ''bad mode'' then Inr [1, 13]
           else Inl (OtherException ''Unable to get page count'')),
      image_save =
        (\<lambda>img f.
           if img = 0 then Inl (OtherException ''cannot write image'')
           else if img = 13 then Inl (KeyError ''mode'')
           else (case f of
                   PNG n \<Rightarrow> Inr (''png'' @ string_of_nat img)
                 | JPEG q \<Rightarrow> Inr (''jpeg'' @ string_of_nat img))),
      img2pdf_convert =
        (\<lambda>bs. if [] \<in> set bs then Inl (OtherException ''cannot read input image'')
              else Inr (''%PDF'' @ concat bs)),
      zip_getvalue = (\<lambda>es. concat (map (\<lambda>(n, b). n @ ''='' @ b @ '';'') es)),
      str_lower = ascii_lower,
      py_repr = ascii_repr,
      mime_encode = mime_table,
      struct_error = ''ushort format requires 0 <= number <= 65535''\<rparr>"

text \<open>The same deployment on a machine where no candidate directory and no installer exist.\<close>

definition bare :: "nat externals" where
  "bare = demo\<lparr>path_exists := (\<lambda>p. False)\<rparr>"

text \<open>The same deployment where only the installer script exists.\<close>

definition with_installer :: "nat externals" where
  "with_installer = demo\<lparr>path_exists := (\<lambda>p. p = ''/srv/backend/install_poppler.py'')\<rparr>"

text \<open>The same, with an installer that prints a path holding a NUL.\<close>

definition with_nul_installer :: "nat externals" where
  "with_nul_installer =
     with_installer
       \<lparr>run_installer :=
          (\<lambda>script. Inr \<lparr>returncode = 0,
                          stdout = ''Poppler installed at: /opt'' @ [CHR 0x00] @ ''/bin'',
                          stderr = []\<rparr>)\<rparr>"

text \<open>A format of 65536 letters: with it, no entry name fits the header of an archive.\<close>

definition long_format :: string where
  "long_format = replicate 65536 (CHR ''a'')"

definition pdf_request :: "bytes \<Rightarrow> string list \<Rightarrow> request" where
  "pdf_request body formats =
     \<lparr>FILES = (\<lambda>k. if k = ''pdf'' then [\<lparr>name = ''in.pdf'', read = body\<rparr>] else []),
      POST = (\<lambda>k. if k = ''format'' then formats else [])\<rparr>"

definition images_request :: "bytes list \<Rightarrow> request" where
  "images_request bodies =
     \<lparr>FILES = (\<lambda>k. if k = ''images''
                    then map (\<lambda>b. \<lparr>name = ''scan.jpg'', read = b\<rparr>) bodies else []),
      POST = (\<lambda>k. [])\<rparr>"

text \<open>A POST whose body is JSON: the multipart parser does not take it.\<close>

definition json_post :: http_request where
  \<open>json_post =
     Unparsable (OtherException ''Unsupported media type "application/json" in request.'')\<close>

definition fresh :: world where
  "fresh = \<lparr>environ = Map.empty, calls = []\<rparr>"

definition stale :: world where
  "stale = \<lparr>environ = [POPPLER_PATH \<mapsto> ''/opt/gone/bin''], calls = []\<rparr>"

section \<open>Facts about the building blocks\<close>

lemma first_existing_none:
  "\<forall>q \<in> set ps. \<not> Path_exists X q \<Longrightarrow>
   first_existing X ps w = (None, w\<lparr>calls := calls w @ map PathExists ps\<rparr>)"
  by (induction ps arbitrary: w) (simp_all add: log_call_def)

lemma first_existing_some:
  "\<forall>q \<in> set pre. \<not> Path_exists X q \<Longrightarrow> Path_exists X p \<Longrightarrow>
   first_existing X (pre @ p # rest) w =
     (Some p, w\<lparr>calls := calls w @ map PathExists (pre @ [p])\<rparr>)"
  by (induction pre arbitrary: w) (simp_all add: log_call_def)

lemma first_existing_world:
  "first_existing X ps w = (r, w') \<Longrightarrow>
   environ w' = environ w \<and> (\<exists>qs. calls w' = calls w @ map PathExists qs)"
proof (induction ps arbitrary: w)
  case Nil
  then show ?case by auto
next
  case (Cons p ps)
  show ?case
  proof (cases "Path_exists X p")
    case True
    with Cons.prems have "w' = log_call (PathExists p) w" by simp
    then have "calls w' = calls w @ map PathExists [p]" "environ w' = environ w"
      by (simp_all add: log_call_def)
    then show ?thesis by blast
  next
    case False
    with Cons.prems have "first_existing X ps (log_call (PathExists p) w) = (r, w')" by simp
    from Cons.IH[OF this] obtain qs where
      "environ w' = environ w" "calls w' = calls w @ map PathExists (p # qs)"
      by (auto simp: log_call_def)
    then show ?thesis by blast
  qed
qed

lemma first_existing_found: "first_existing X ps w = (Some p, w') \<Longrightarrow> Path_exists X p"
  by (induction ps arbitrary: w) (auto simp: Let_def split: if_splits)

lemma first_existing_assignable:
  assumes "first_existing X ps w = (Some p, w')"
  shows "environ_setitem POPPLER_PATH p w'' = Inr (set_poppler_path p w'')"
  using first_existing_found [OF assms]
  by (simp add: Path_exists_def environ_setitem_def set_poppler_path_def)

lemma find_poppler_calls:
  "find_poppler X w = (pp, w1) \<Longrightarrow> \<exists>qs. calls w1 = calls w @ map PathExists qs"
proof -
  assume a: "find_poppler X w = (pp, w1)"
  let ?two = "[joinpath (base_dir X) [''poppler'', ''poppler-23.11.0'', ''Library'', ''bin''],
               joinpath (base_dir X) [''poppler'', ''Library'', ''bin'']]"
  obtain r wa where fe: "first_existing X ?two w = (r, wa)" by (cases "first_existing X ?two w")
  from first_existing_world[OF fe] obtain qs where
    qs: "calls wa = calls w @ map PathExists qs" by blast
  show ?thesis
  proof (cases "truthy (environ w POPPLER_PATH)")
    case True
    then obtain p where p: "environ w POPPLER_PATH = Some p" "p \<noteq> []"
      by (cases "environ w POPPLER_PATH") auto
    with a have "calls w1 = calls w @ map PathExists [p]"
      by (auto simp: find_poppler_def Let_def log_call_def split: if_splits)
    then show ?thesis by blast
  next
    case False
    show ?thesis
    proof (cases r)
      case None
      with a False fe have "calls w1 = calls wa"
        by (cases "environ w POPPLER_PATH") (auto simp: find_poppler_def Let_def split: if_splits)
      with qs show ?thesis by auto
    next
      case (Some p)
      with a False fe have "calls w1 = calls wa \<or> calls w1 = calls wa @ [PathExists p]"
        by (auto simp: find_poppler_def Let_def log_call_def set_poppler_path_def split: if_splits)
      with qs have "calls w1 = calls w @ map PathExists qs
                    \<or> calls w1 = calls w @ map PathExists (qs @ [p])"
        by auto
      then show ?thesis by blast
    qed
  qed
qed

lemma find_poppler_cached:
  assumes "environ w POPPLER_PATH = Some p" and "p \<noteq> []"
  shows "find_poppler X w =
           (if Path_exists X p then Some p else None, log_call (PathExists p) w)"
  using assms by (simp add: find_poppler_def Let_def)

lemma rasterize_calls:
  "rasterize X format b pp w = (r, w') \<Longrightarrow>
   calls w' = calls w @
     (case convert_from_bytes X b (first_options format pp) of
        Inr images \<Rightarrow> [ConvertFromBytes b (first_options format pp)]
      | Inl e \<Rightarrow> [ConvertFromBytes b (first_options format pp),
                  ConvertFromBytes b (second_options format pp)])
   \<and> environ w' = environ w"
  by (auto simp: rasterize_def Let_def log_call_def split: sum.splits)

lemma rasterize_result:
  "fst (rasterize X f b pp w) =
     (case convert_from_bytes X b (first_options f pp) of
        Inr pages \<Rightarrow> Inr pages
      | Inl e1 \<Rightarrow>
          (case convert_from_bytes X b (second_options f pp) of
             Inr pages \<Rightarrow> Inr pages
           | Inl e2 \<Rightarrow> Inl (HttpResponse conversion_failed_message 500)))"
  by (simp add: rasterize_def Let_def split: sum.splits)

lemma rasterize_first_ok:
  "convert_from_bytes X b (first_options f pp) = Inr images \<Longrightarrow>
   fst (rasterize X f b pp w) = Inr images"
  by (simp add: rasterize_result)

lemma rasterize_second_ok:
  "convert_from_bytes X b (first_options f pp) = Inl e \<Longrightarrow>
   convert_from_bytes X b (second_options f pp) = Inr images \<Longrightarrow>
   fst (rasterize X f b pp w) = Inr images"
  by (simp add: rasterize_result)

lemma rasterize_both_fail:
  "convert_from_bytes X b (first_options f pp) = Inl e1 \<Longrightarrow>
   convert_from_bytes X b (second_options f pp) = Inl e2 \<Longrightarrow>
   fst (rasterize X f b pp w) = Inl (HttpResponse conversion_failed_message 500)"
  by (simp add: rasterize_result)

lemma filter_conversion_probes: "filter is_conversion (map PathExists qs) = []"
  by (induction qs) simp_all

lemma post_try_present:
  assumes "FILES req ''pdf'' \<noteq> []"
    and "find_poppler X w = (pp, w1)"
    and "rasterize X (str_lower X (get_default (POST req) ''format'' ''jpg''))
           (read (last (FILES req ''pdf''))) pp w1 = (r, w2)"
  shows "PdfToJpgView_post_try X (Parsed req) w =
           (case r of
              Inl resp \<Rightarrow> Inr resp
            | Inr images \<Rightarrow>
                after_rasterize X (str_lower X (get_default (POST req) ''format'' ''jpg''))
                  images, w2)"
  using assms
  by (cases "FILES req ''pdf''")
     (auto simp: PdfToJpgView_post_try_def getitem_def Let_def split: sum.splits)

lemma snd_post_try:
  assumes "FILES req ''pdf'' \<noteq> []"
    and "find_poppler X w = (pp, w1)"
    and "rasterize X (str_lower X (get_default (POST req) ''format'' ''jpg''))
           (read (last (FILES req ''pdf''))) pp w1 = (r, w2)"
  shows "snd (PdfToJpgView_post X (Parsed req) w) = w2"
  unfolding PdfToJpgView_post_def post_try_present[OF assms] by simp

lemma snd_post_absent:
  "FILES req ''pdf'' = [] \<Longrightarrow> snd (PdfToJpgView_post X (Parsed req) w) = w"
  by (simp add: PdfToJpgView_post_def PdfToJpgView_post_try_def getitem_def)

lemma snd_post_unparsable: "snd (PdfToJpgView_post X (Unparsable e) w) = w"
  by (simp add: PdfToJpgView_post_def PdfToJpgView_post_try_def)

lemma post_of_rasterize:
  assumes "FILES req ''pdf'' \<noteq> []"
    and "find_poppler X w = (pp, w1)"
    and "fst (rasterize X (str_lower X (get_default (POST req) ''format'' ''jpg''))
           (read (last (FILES req ''pdf''))) pp w1) = r"
  shows "fst (PdfToJpgView_post X (Parsed req) w) =
           (case r of
              Inl resp \<Rightarrow> resp
            | Inr images \<Rightarrow>
                outer_handlers
                  (after_rasterize X (str_lower X (get_default (POST req) ''format'' ''jpg''))
                     images))"
proof -
  obtain w2 where
    "rasterize X (str_lower X (get_default (POST req) ''format'' ''jpg''))
           (read (last (FILES req ''pdf''))) pp w1 = (r, w2)"
    using assms(3) by (metis prod.collapse)
  from post_try_present[OF assms(1,2) this] show ?thesis
    by (simp add: PdfToJpgView_post_def split: sum.splits)
qed

lemma is_latin1_append: "is_latin1 (u @ v) = (is_latin1 u \<and> is_latin1 v)"
  by (simp add: is_latin1_def)

lemma has_newline_append: "has_newline (u @ v) = (has_newline u \<or> has_newline v)"
  by (auto simp: has_newline_def)

lemma header_text_latin1: "is_latin1 v \<Longrightarrow> header_text X v = v"
  by (simp add: header_text_def)

lemma convert_header_plain: "\<not> has_newline v \<Longrightarrow> convert_header X v = Inr (header_text X v)"
  by (simp add: convert_header_def)

lemma image_type_newline: "has_newline (''image/'' @ f) = has_newline f"
  by (simp add: has_newline_def)

lemma disposition_newline:
  \<open>has_newline (''attachment; filename="'' @ n @ ''"'') = has_newline n\<close>
  by (simp add: has_newline_def)

lemma converted_newline: "has_newline (''converted.'' @ f) = has_newline f"
  by (simp add: has_newline_def)

lemma image_type_latin1: "is_latin1 (''image/'' @ f) = is_latin1 f"
  by (simp add: is_latin1_def)

lemma disposition_latin1:
  \<open>is_latin1 (''attachment; filename="converted.'' @ f @ ''"'') = is_latin1 f\<close>
  by (simp add: is_latin1_def)

lemma attachment_response_pdf:
  \<open>attachment_response X body ''application/pdf'' ''converted.pdf'' =
     Inr \<lparr>status = 200, content = body, content_type = Some ''application/pdf'',
          content_disposition = Some ''attachment; filename="converted.pdf"''\<rparr>\<close>
  by (simp add: attachment_response_def convert_header_def has_newline_def header_text_def
      is_latin1_def)

lemma attachment_response_zip:
  \<open>attachment_response X body ''application/zip'' ''converted.zip'' =
     Inr \<lparr>status = 200, content = body, content_type = Some ''application/zip'',
          content_disposition = Some ''attachment; filename="converted.zip"''\<rparr>\<close>
  by (simp add: attachment_response_def convert_header_def has_newline_def header_text_def
      is_latin1_def)

lemma attachment_response_image:
  assumes "\<not> has_newline f"
  shows \<open>attachment_response X body (''image/'' @ f) (''converted.'' @ f) =
     Inr \<lparr>status = 200, content = body,
          content_type = Some (header_text X (''image/'' @ f)),
          content_disposition =
            Some (header_text X (''attachment; filename="converted.'' @ f @ ''"''))\<rparr>\<close>
proof -
  have a: "\<not> has_newline (''image/'' @ f)"
    unfolding image_type_newline by (rule assms)
  have b: \<open>\<not> has_newline (''attachment; filename="'' @ (''converted.'' @ f) @ ''"'')\<close>
    unfolding disposition_newline converted_newline by (rule assms)
  show ?thesis
    unfolding attachment_response_def convert_header_plain [OF a] convert_header_plain [OF b]
    by simp
qed

lemma attachment_response_image_newline:
  assumes "has_newline f"
  shows "attachment_response X body (''image/'' @ f) (''converted.'' @ f) =
     Inl (OtherException
            (''Header values can't contain newlines (got '' @ py_repr X (''image/'' @ f) @ '')''))"
proof -
  have a: "has_newline (''image/'' @ f)"
    using assms by (simp only: image_type_newline)
  show ?thesis
    by (simp only: attachment_response_def convert_header_def a if_True sum.case)
qed

lemma ascii_lower_examples:
  "ascii_lower ''jpg'' = ''jpg''" "ascii_lower ''PNG'' = ''png''" "ascii_lower ''png'' = ''png''"
  "ascii_lower ''GIF'' = ''gif''" "ascii_lower ''gif'' = ''gif''"
  by code_simp+

lemma demo_tables:
  "str_lower demo = ascii_lower" "py_repr demo = ascii_repr"
  "str_lower bare = ascii_lower"
  by (simp_all add: demo_def bare_def)

lemma pdf_request_present: "FILES (pdf_request b fs) ''pdf'' \<noteq> []"
  by (simp add: pdf_request_def)

lemma pdf_request_body: "read (last (FILES (pdf_request b fs) ''pdf'')) = b"
  by (simp add: pdf_request_def)

lemma pdf_request_format:
  "get_default (POST (pdf_request b [])) ''format'' ''jpg'' = ''jpg''"
  "get_default (POST (pdf_request b [v])) ''format'' ''jpg'' = v"
  by (simp_all add: pdf_request_def get_default_def)

lemma pdf_request_default_format:
  "str_lower demo (get_default (POST (pdf_request b [])) ''format'' ''jpg'') = ''jpg''"
  "str_lower bare (get_default (POST (pdf_request b [])) ''format'' ''jpg'') = ''jpg''"
  by (simp_all add: pdf_request_format demo_tables ascii_lower_examples)

lemma pdf_request_png_format:
  "str_lower demo (get_default (POST (pdf_request b [''PNG''])) ''format'' ''jpg'') = ''png''"
  by (simp add: pdf_request_format demo_tables ascii_lower_examples)


lemma demo_find_poppler:
  "fst (find_poppler demo fresh) = Some ''/srv/backend/poppler/Library/bin''"
  by (simp add: find_poppler_def demo_def fresh_def joinpath_def join1_def POPPLER_PATH_def
      Path_exists_def log_call_def set_poppler_path_def Let_def)

lemma string_of_digit: "string_of_nat (Suc 0) = ''1''" "string_of_nat 2 = ''2''"
  "string_of_nat 3 = ''3''" "string_of_nat 4 = ''4''"
  by code_simp+

lemma one_page_jpg:
  assumes "str_lower X = ascii_lower" and "image_save X page (JPEG 95) = Inr data"
  shows \<open>after_rasterize X ''jpg'' [page] =
     Inr \<lparr>status = 200, content = data, content_type = Some ''image/jpg'',
          content_disposition = Some ''attachment; filename="converted.jpg"''\<rparr>\<close>
proof -
  have n: "\<not> has_newline ''jpg''" by (simp add: has_newline_def)
  have l: "is_latin1 ''jpg''" by (simp add: is_latin1_def)
  have e: "encode_page X ''jpg'' page = Inr data"
    using assms by (simp add: encode_page_def ascii_lower_examples)
  show ?thesis
    using attachment_response_image [OF n, of X data] e l
    by (simp add: after_rasterize_def package_def header_text_def is_latin1_def)
qed

lemma digit_not_nul: "d < 10 \<Longrightarrow> char_of (48 + d :: nat) \<noteq> CHR 0x00"
proof
  assume d: "d < 10" and "char_of (48 + d) = CHR 0x00"
  then have "(of_char (char_of (48 + d) :: char) :: nat) = of_char (CHR 0x00)" by simp
  then have "(48 + d) mod 256 = 0" by simp
  with d show False by simp
qed

lemma string_of_nat_no_nul: "CHR 0x00 \<notin> set (string_of_nat n)"
proof (induction n rule: string_of_nat.induct)
  case (1 n)
  show ?case
  proof (cases "n < 10")
    case True
    then show ?thesis
      using digit_not_nul [of n] by (subst string_of_nat.simps) auto
  next
    case False
    have "n mod 10 < 10" by simp
    from digit_not_nul [OF this] 1 [OF False] False show ?thesis
      by (subst string_of_nat.simps) auto
  qed
qed

lemma stored_name_no_nul: "CHR 0x00 \<notin> set n \<Longrightarrow> stored_name n = n"
  by (auto simp: stored_name_def)

lemma stored_name_page:
  assumes "CHR 0x00 \<notin> set f"
  shows "stored_name (''page_'' @ string_of_nat i @ ''.'' @ f) =
           ''page_'' @ string_of_nat i @ ''.'' @ f"
  using assms string_of_nat_no_nul [of i] by (intro stored_name_no_nul) auto

lemma zip_pages_ok:
  assumes "map (encode_page X f) pages = map Inr datas"
    and "\<forall>k \<in> {i + 1..i + length pages}.
           length (stored_name (''page_'' @ string_of_nat k @ ''.'' @ f)) \<le> 65535"
  shows "zip_pages X f i pages =
     Inr (map (\<lambda>(k, data). (stored_name (''page_'' @ string_of_nat k @ ''.'' @ f), data))
            (enumerate (i + 1) datas))"
  using assms
proof (induction pages arbitrary: i datas)
  case Nil
  then show ?case by simp
next
  case (Cons page pages)
  then obtain d ds where datas: "datas = d # ds"
    and d: "encode_page X f page = Inr d"
    and ds: "map (encode_page X f) pages = map Inr ds"
    by (cases datas) auto
  have fits: "length (stored_name (''page_'' @ string_of_nat (i + 1) @ ''.'' @ f)) \<le> 65535"
    using Cons.prems(2) by simp
  have rest: "\<forall>k \<in> {(i + 1) + 1..(i + 1) + length pages}.
           length (stored_name (''page_'' @ string_of_nat k @ ''.'' @ f)) \<le> 65535"
    using Cons.prems(2) by simp
  from Cons.IH [OF ds rest] d fits show ?case
    by (simp add: datas zip_writestr_def)
qed

lemma zip_pages_fail:
  assumes "map (encode_page X f) before = map Inr datas"
    and "\<forall>k \<in> {i + 1..i + length before}.
           length (stored_name (''page_'' @ string_of_nat k @ ''.'' @ f)) \<le> 65535"
    and "encode_page X f page = Inl e"
  shows "zip_pages X f i (before @ page # rest) = Inl e"
  using assms
proof (induction before arbitrary: i datas)
  case Nil
  then show ?case by simp
next
  case (Cons p ps)
  then obtain d ds where d: "encode_page X f p = Inr d"
    and ds: "map (encode_page X f) ps = map Inr ds"
    by (cases datas) auto
  have fits: "length (stored_name (''page_'' @ string_of_nat (i + 1) @ ''.'' @ f)) \<le> 65535"
    using Cons.prems(2) by simp
  have rest: "\<forall>k \<in> {(i + 1) + 1..(i + 1) + length ps}.
           length (stored_name (''page_'' @ string_of_nat k @ ''.'' @ f)) \<le> 65535"
    using Cons.prems(2) by simp
  from Cons.IH [OF ds rest Cons.prems(3)] d fits show ?case
    by (simp add: zip_writestr_def)
qed

lemma package_fail:
  assumes "map (encode_page X f) before = map Inr datas"
    and "\<forall>k \<in> {1..length before}.
           length (stored_name (''page_'' @ string_of_nat k @ ''.'' @ f)) \<le> 65535"
    and "encode_page X f page = Inl e"
  shows "package X f (before @ page # rest) = Inl e"
proof (cases "length (before @ page # rest) = 1")
  case True
  then have "before = []" "rest = []" by (cases before; simp)+
  with assms(3) show ?thesis by (simp add: package_def)
next
  case False
  have "\<forall>k \<in> {0 + 1..0 + length before}.
           length (stored_name (''page_'' @ string_of_nat k @ ''.'' @ f)) \<le> 65535"
    using assms(2) by simp
  from zip_pages_fail [OF assms(1) this assms(3), of rest] False show ?thesis
    by (auto simp: package_def)
qed

lemma package_one:
  assumes "encode_page X f page = Inr data"
  shows "package X f [page] =
           attachment_response X data (''image/'' @ f) (''converted.'' @ f)"
  using assms by (simp add: package_def)

lemma package_many:
  assumes "1 < length pages"
    and "map (encode_page X f) pages = map Inr datas"
    and "\<forall>k \<in> {1..length pages}.
           length (stored_name (''page_'' @ string_of_nat k @ ''.'' @ f)) \<le> 65535"
  shows \<open>package X f pages =
     Inr \<lparr>status = 200,
          content = zip_getvalue X
            (map (\<lambda>(k, data). (stored_name (''page_'' @ string_of_nat k @ ''.'' @ f), data))
               (enumerate 1 datas)),
          content_type = Some ''application/zip'',
          content_disposition = Some ''attachment; filename="converted.zip"''\<rparr>\<close>
proof -
  have "\<forall>k \<in> {0 + 1..0 + length pages}.
           length (stored_name (''page_'' @ string_of_nat k @ ''.'' @ f)) \<le> 65535"
    using assms(3) by simp
  from zip_pages_ok [OF assms(2) this] assms(1) show ?thesis
    by (simp add: package_def attachment_response_zip)
qed

lemma after_rasterize_nonempty:
  "pages \<noteq> [] \<Longrightarrow> after_rasterize X f pages = package X f pages"
  by (simp add: after_rasterize_def)

lemma is_latin1_iff: "is_latin1 v \<longleftrightarrow> (\<forall>c \<in> set v. (of_char c :: nat) < 196)"
  by (simp add: is_latin1_def list_all_iff)

lemma has_newline_iff: "has_newline v \<longleftrightarrow> CHR 0x0A \<in> set v \<or> CHR 0x0D \<in> set v"
  by (simp add: has_newline_def)

lemma image_labels:
  \<open>header_text X (''image/'' @ f) =
     (if \<forall>c \<in> set f. (of_char c :: nat) < 196 then ''image/'' @ f
      else mime_encode X (''image/'' @ f))\<close>
  \<open>header_text X (''attachment; filename="converted.'' @ f @ ''"'') =
     (if \<forall>c \<in> set f. (of_char c :: nat) < 196
      then ''attachment; filename="converted.'' @ f @ ''"''
      else mime_encode X (''attachment; filename="converted.'' @ f @ ''"''))\<close>
  unfolding header_text_def image_type_latin1 disposition_latin1 is_latin1_iff by simp_all

lemma zip_pages_name_fail:
  assumes "map (encode_page X f) before = map Inr datas"
    and "\<forall>k \<in> {i + 1..i + length before}.
           length (stored_name (''page_'' @ string_of_nat k @ ''.'' @ f)) \<le> 65535"
    and "encode_page X f page = Inr data"
    and "65535 < length (stored_name
                          (''page_'' @ string_of_nat (i + length before + 1) @ ''.'' @ f))"
  shows "zip_pages X f i (before @ page # rest) = Inl (OtherException (struct_error X))"
  using assms
proof (induction before arbitrary: i datas)
  case Nil
  then show ?case by (simp add: zip_writestr_def)
next
  case (Cons p ps)
  then obtain d ds where d: "encode_page X f p = Inr d"
    and ds: "map (encode_page X f) ps = map Inr ds"
    by (cases datas) auto
  have fits: "length (stored_name (''page_'' @ string_of_nat (i + 1) @ ''.'' @ f)) \<le> 65535"
    using Cons.prems(2) by simp
  have rest: "\<forall>k \<in> {(i + 1) + 1..(i + 1) + length ps}.
           length (stored_name (''page_'' @ string_of_nat k @ ''.'' @ f)) \<le> 65535"
    using Cons.prems(2) by simp
  have long: "65535 < length (stored_name
                (''page_'' @ string_of_nat ((i + 1) + length ps + 1) @ ''.'' @ f))"
    using Cons.prems(4) by simp
  from Cons.IH [OF ds rest Cons.prems(3) long] d fits show ?case
    by (simp add: zip_writestr_def)
qed

lemma package_name_fail:
  assumes "1 < length (before @ page # rest)"
    and "map (encode_page X f) before = map Inr datas"
    and "\<forall>k \<in> {1..length before}.
           length (stored_name (''page_'' @ string_of_nat k @ ''.'' @ f)) \<le> 65535"
    and "encode_page X f page = Inr data"
    and "65535 < length (stored_name
                          (''page_'' @ string_of_nat (length before + 1) @ ''.'' @ f))"
  shows "package X f (before @ page # rest) = Inl (OtherException (struct_error X))"
proof -
  have fits: "\<forall>k \<in> {0 + 1..0 + length before}.
           length (stored_name (''page_'' @ string_of_nat k @ ''.'' @ f)) \<le> 65535"
    using assms(3) by simp
  have long: "65535 < length (stored_name
                (''page_'' @ string_of_nat (0 + length before + 1) @ ''.'' @ f))"
    using assms(5) by simp
  have "length (before @ page # rest) \<noteq> 1" using assms(1) by simp
  with zip_pages_name_fail [OF assms(2) fits assms(4) long, of rest] show ?thesis
    by (simp only: package_def if_False sum.case)
qed

lemma long_format_lower: "ascii_lower long_format = long_format"
proof -
  have "ascii_lower_char (CHR ''a'') = CHR ''a''" by code_simp
  then show ?thesis by (simp add: ascii_lower_def long_format_def)
qed

lemma long_format_not_png: "long_format \<noteq> ''png''"
proof
  assume "long_format = ''png''"
  then have "length long_format = length ''png''" by (rule arg_cong)
  then show False unfolding long_format_def by (simp only: length_replicate) simp
qed

lemma long_format_name:
  "65535 < length (takeWhile (\<lambda>c. c \<noteq> CHR 0x00)
      (''page_'' @ string_of_nat n @ ''.'' @ long_format))"
proof -
  have "CHR 0x00 \<notin> set long_format"
    unfolding long_format_def by (simp only: set_replicate_conv_if) simp
  from stored_name_page [OF this, of n] show ?thesis
    unfolding stored_name_def long_format_def
    by (simp only: length_append length_replicate)
qed

lemma newline_jpg_lower: "ascii_lower (''jpg'' @ [CHR 0x0A]) = ''jpg'' @ [CHR 0x0A]"
  by code_simp



lemma post_of_try_keyerror:
  "fst (PdfToJpgView_post_try X r w) = Inl (KeyError k) \<Longrightarrow>
   fst (PdfToJpgView_post X r w) = HttpResponse ''No PDF file uploaded'' 400"
  by (cases "PdfToJpgView_post_try X r w") (simp add: PdfToJpgView_post_def)

lemma take_shorter_prefix:
  assumes "take (length (xs @ ys)) s = xs @ ys"
  shows "take (length xs) s = xs"
proof -
  have "take (length xs) s = take (length xs) (take (length (xs @ ys)) s)"
    by (simp add: min_def)
  also have "\<dots> = take (length xs) (xs @ ys)"
    by (simp only: assms)
  finally show ?thesis by simp
qed

lemma installed_prefix_split: "installed_prefix = ''Poppler installed at:'' @ '' ''"
  by (simp add: installed_prefix_def)

lemma re_search_installed_contains:
  "re_search_installed s = Some p \<Longrightarrow> contains ''Poppler installed at:'' s"
proof (induction s)
  case Nil
  then show ?case by simp
next
  case (Cons c cs)
  show ?case
  proof (cases "take (length installed_prefix) (c # cs) = installed_prefix")
    case True
    then have "take (length ''Poppler installed at:'') (c # cs) = ''Poppler installed at:''"
      unfolding installed_prefix_split by (rule take_shorter_prefix)
    then show ?thesis
      by (subst contains.simps) (rule disjI1)
  next
    case False
    with Cons have "contains ''Poppler installed at:'' cs" by simp
    then show ?thesis
      by (subst contains.simps) (rule disjI2)
  qed
qed

lemma join1_nonempty: "c \<noteq> [] \<Longrightarrow> join1 p c \<noteq> []" "c \<noteq> [] \<Longrightarrow> [] \<noteq> join1 p c"
  by (simp_all add: join1_def)

lemma possible_paths_nonempty: "q \<in> set (possible_paths X) \<Longrightarrow> q \<noteq> []"
  by (auto simp: possible_paths_def joinpath_def join1_nonempty)

lemma install_poppler_calls:
  "calls (install_poppler X w) =
     calls w @
       (if Path_exists X (joinpath (base_dir X) [''install_poppler.py''])
        then [PathExists (joinpath (base_dir X) [''install_poppler.py'']),
              RunInstaller (joinpath (base_dir X) [''install_poppler.py''])]
        else [PathExists (joinpath (base_dir X) [''install_poppler.py''])])"
  by (simp add: install_poppler_def Let_def log_call_def environ_setitem_def
      split: sum.splits option.splits)

lemma install_poppler_no_script:
  "\<not> Path_exists X (joinpath (base_dir X) [''install_poppler.py'']) \<Longrightarrow>
   environ (install_poppler X w) = environ w"
  by (simp add: install_poppler_def Let_def log_call_def)

lemma install_poppler_success:
  assumes "Path_exists X (joinpath (base_dir X) [''install_poppler.py''])"
    and "run_installer X (joinpath (base_dir X) [''install_poppler.py'']) = Inr r"
    and "returncode r = 0"
    and "re_search_installed (stdout r) = Some p"
    and "CHR 0x00 \<notin> set p"
  shows "environ (install_poppler X w) = (environ w)(POPPLER_PATH \<mapsto> p)"
  using assms re_search_installed_contains [OF assms(4)]
  by (simp add: install_poppler_def Let_def log_call_def environ_setitem_def)

lemma install_poppler_failure:
  assumes "run_installer X (joinpath (base_dir X) [''install_poppler.py'']) = Inl e
           \<or> (\<exists>r. run_installer X (joinpath (base_dir X) [''install_poppler.py'']) = Inr r
                  \<and> (returncode r \<noteq> 0 \<or> re_search_installed (stdout r) = None
                      \<or> (\<exists>p. re_search_installed (stdout r) = Some p \<and> CHR 0x00 \<in> set p)))"
  shows "environ (install_poppler X w) = environ w"
  using assms
  by (auto simp: install_poppler_def Let_def log_call_def environ_setitem_def)

lemma module_setup_unset_none:
  assumes "\<not> truthy (environ w POPPLER_PATH)"
    and "\<forall>q \<in> set (possible_paths X). \<not> Path_exists X q"
  shows "module_setup X w =
           install_poppler X (w\<lparr>calls := calls w @ map PathExists (possible_paths X)\<rparr>)"
  using assms(1) by (simp add: module_setup_def first_existing_none [OF assms(2)])

lemma module_setup_unset_found:
  assumes "\<not> truthy (environ w POPPLER_PATH)"
    and "possible_paths X = before @ p # rest"
    and "\<forall>q \<in> set before. \<not> Path_exists X q"
    and "Path_exists X p"
  shows "module_setup X w =
           set_poppler_path p (w\<lparr>calls := calls w @ map PathExists (before @ [p])\<rparr>)"
proof -
  have "p \<in> set (possible_paths X)" by (simp add: assms(2))
  then have "p \<noteq> []" by (rule possible_paths_nonempty)
  with assms(1) show ?thesis
    by (simp add: module_setup_def assms(2) first_existing_some [OF assms(3,4)])
qed

lemma demo_possible_paths:
  "possible_paths demo =
     [''/srv/backend/poppler/poppler-23.11.0/Library/bin'',
      ''/srv/backend/poppler/Library/bin'',
      ''/srv/backend/poppler/bin'',
      ''/srv/backend/poppler-23.11.0/Library/bin'']"
  "possible_paths bare = possible_paths demo"
  "possible_paths with_installer = possible_paths demo"
  "possible_paths with_nul_installer = possible_paths demo"
  by (simp_all add: possible_paths_def joinpath_def join1_def demo_def bare_def
      with_installer_def with_nul_installer_def)

lemma demo_script:
  "joinpath (base_dir demo) [''install_poppler.py''] = ''/srv/backend/install_poppler.py''"
  "base_dir bare = base_dir demo"
  "base_dir with_installer = base_dir demo"
  "base_dir with_nul_installer = base_dir demo"
  by (simp_all add: joinpath_def join1_def demo_def bare_def with_installer_def
      with_nul_installer_def)

lemma demo_installer_output:
  "re_search_installed
     (''Downloading'' @ [CHR 0x0A] @ ''Poppler installed at: /opt/poppler/bin'' @ [CHR 0x0A]) =
   Some ''/opt/poppler/bin''"
  "re_search_installed (''Poppler installed at: /opt'' @ [CHR 0x00] @ ''/bin'') =
   Some (''/opt'' @ [CHR 0x00] @ ''/bin'')"
  by code_simp+

section \<open>Locating the toolchain when the module is loaded\<close>

text \<open>
  C7, as the code has it. Let \<^verbatim>\<open>POPPLER_PATH\<close> be unset (or empty) when the module is
  loaded. The four candidate directories are tested in their fixed order; the first that
  exists becomes \<^verbatim>\<open>POPPLER_PATH\<close> and no later candidate is tested. If none exists, the
  setup tests whether \<^verbatim>\<open>install_poppler.py\<close> exists. Only if it does, the installer is run,
  once: when it returns with code 0 and its output holds \<^verbatim>\<open>Poppler installed at: \<close> followed
  by a path without NUL, that path becomes \<^verbatim>\<open>POPPLER_PATH\<close>; when it raises, returns another
  code, its output does not hold the marker, or the path after the marker holds a NUL
  (the environment refuses it), the environment is left as it was. If the script does
  not exist, nothing is run and the environment is left as it was.
\<close>

theorem module_setup_resolution:
  assumes "\<not> truthy (environ w POPPLER_PATH)"
    and "script = joinpath (base_dir X) [''install_poppler.py'']"
  shows "(possible_paths X = before @ p # rest
          \<and> (\<forall>q \<in> set before. \<not> Path_exists X q) \<and> Path_exists X p \<longrightarrow>
            environ (module_setup X w) = (environ w)(POPPLER_PATH \<mapsto> p)
          \<and> new_calls w (module_setup X w) = map PathExists (before @ [p]))
       \<and> ((\<forall>q \<in> set (possible_paths X). \<not> Path_exists X q) \<and> Path_exists X script \<longrightarrow>
            new_calls w (module_setup X w) =
              map PathExists (possible_paths X) @ [PathExists script, RunInstaller script]
          \<and> (run_installer X script = Inr r \<and> returncode r = 0
              \<and> re_search_installed (stdout r) = Some found \<and> CHR 0x00 \<notin> set found \<longrightarrow>
                environ (module_setup X w) = (environ w)(POPPLER_PATH \<mapsto> found))
          \<and> (run_installer X script = Inl e
              \<or> (\<exists>r. run_installer X script = Inr r
                     \<and> (returncode r \<noteq> 0 \<or> re_search_installed (stdout r) = None
                         \<or> (\<exists>path. re_search_installed (stdout r) = Some path
                                   \<and> CHR 0x00 \<in> set path))) \<longrightarrow>
                environ (module_setup X w) = environ w))
       \<and> ((\<forall>q \<in> set (possible_paths X). \<not> Path_exists X q) \<and> \<not> Path_exists X script \<longrightarrow>
            new_calls w (module_setup X w) =
              map PathExists (possible_paths X) @ [PathExists script]
          \<and> environ (module_setup X w) = environ w)"
proof (intro conjI impI)
  assume a: "possible_paths X = before @ p # rest
          \<and> (\<forall>q \<in> set before. \<not> Path_exists X q) \<and> Path_exists X p"
  then have m: "module_setup X w =
           set_poppler_path p (w\<lparr>calls := calls w @ map PathExists (before @ [p])\<rparr>)"
    using module_setup_unset_found [OF assms(1)] by blast
  show "environ (module_setup X w) = (environ w)(POPPLER_PATH \<mapsto> p)"
    unfolding m by (simp add: set_poppler_path_def)
  show "new_calls w (module_setup X w) = map PathExists (before @ [p])"
    unfolding m by (simp add: set_poppler_path_def new_calls_def)
next
  assume a: "(\<forall>q \<in> set (possible_paths X). \<not> Path_exists X q) \<and> Path_exists X script"
  then have m: "module_setup X w =
           install_poppler X (w\<lparr>calls := calls w @ map PathExists (possible_paths X)\<rparr>)"
    using module_setup_unset_none [OF assms(1)] by blast
  from a show "new_calls w (module_setup X w) =
              map PathExists (possible_paths X) @ [PathExists script, RunInstaller script]"
    unfolding m by (simp add: install_poppler_calls new_calls_def assms(2))
  {
    assume "run_installer X script = Inr r \<and> returncode r = 0
              \<and> re_search_installed (stdout r) = Some found \<and> CHR 0x00 \<notin> set found"
    with a show "environ (module_setup X w) = (environ w)(POPPLER_PATH \<mapsto> found)"
      unfolding m assms(2) by (simp add: install_poppler_success)
  }
  {
    assume "run_installer X script = Inl e
              \<or> (\<exists>r. run_installer X script = Inr r
                     \<and> (returncode r \<noteq> 0 \<or> re_search_installed (stdout r) = None
                         \<or> (\<exists>path. re_search_installed (stdout r) = Some path
                                   \<and> CHR 0x00 \<in> set path)))"
    then show "environ (module_setup X w) = environ w"
      unfolding m assms(2) by (simp add: install_poppler_failure)
  }
next
  assume a: "(\<forall>q \<in> set (possible_paths X). \<not> Path_exists X q) \<and> \<not> Path_exists X script"
  then have m: "module_setup X w =
           install_poppler X (w\<lparr>calls := calls w @ map PathExists (possible_paths X)\<rparr>)"
    using module_setup_unset_none [OF assms(1)] by blast
  from a show "new_calls w (module_setup X w) =
              map PathExists (possible_paths X) @ [PathExists script]"
    unfolding m by (simp add: install_poppler_calls new_calls_def assms(2))
  from a show "environ (module_setup X w) = environ w"
    unfolding m assms(2) by (simp add: install_poppler_no_script)
qed

text \<open>
  Four machines: the second candidate exists; no candidate exists and the installer
  prints a path; no candidate and no installer script exist; no candidate exists and the
  installer prints a path holding a NUL.
\<close>

theorem module_setup_resolution_witness:
  "\<not> truthy (environ fresh POPPLER_PATH)
   \<and> environ (module_setup demo fresh) = (environ fresh)(POPPLER_PATH \<mapsto> ''/srv/backend/poppler/Library/bin'')
   \<and> new_calls fresh (module_setup demo fresh) =
       [PathExists ''/srv/backend/poppler/poppler-23.11.0/Library/bin'',
        PathExists ''/srv/backend/poppler/Library/bin'']
   \<and> new_calls fresh (module_setup with_installer fresh) =
       [PathExists ''/srv/backend/poppler/poppler-23.11.0/Library/bin'',
        PathExists ''/srv/backend/poppler/Library/bin'',
        PathExists ''/srv/backend/poppler/bin'',
        PathExists ''/srv/backend/poppler-23.11.0/Library/bin'',
        PathExists ''/srv/backend/install_poppler.py'',
        RunInstaller ''/srv/backend/install_poppler.py'']
   \<and> environ (module_setup with_installer fresh) =
       (environ fresh)(POPPLER_PATH \<mapsto> ''/opt/poppler/bin'')
   \<and> new_calls fresh (module_setup bare fresh) =
       [PathExists ''/srv/backend/poppler/poppler-23.11.0/Library/bin'',
        PathExists ''/srv/backend/poppler/Library/bin'',
        PathExists ''/srv/backend/poppler/bin'',
        PathExists ''/srv/backend/poppler-23.11.0/Library/bin'',
        PathExists ''/srv/backend/install_poppler.py'']
   \<and> environ (module_setup bare fresh) = environ fresh
   \<and> run_installer with_nul_installer ''/srv/backend/install_poppler.py'' =
       Inr \<lparr>returncode = 0, stdout = ''Poppler installed at: /opt'' @ [CHR 0x00] @ ''/bin'',
            stderr = []\<rparr>
   \<and> new_calls fresh (module_setup with_nul_installer fresh) =
       [PathExists ''/srv/backend/poppler/poppler-23.11.0/Library/bin'',
        PathExists ''/srv/backend/poppler/Library/bin'',
        PathExists ''/srv/backend/poppler/bin'',
        PathExists ''/srv/backend/poppler-23.11.0/Library/bin'',
        PathExists ''/srv/backend/install_poppler.py'',
        RunInstaller ''/srv/backend/install_poppler.py'']
   \<and> environ (module_setup with_nul_installer fresh) = environ fresh"
proof -
  have unset: "\<not> truthy (environ fresh POPPLER_PATH)"
    by (simp add: fresh_def)
  let ?script = "''/srv/backend/install_poppler.py''"
  let ?r = "\<lparr>returncode = 0,
             stdout = ''Downloading'' @ [CHR 0x0A]
                      @ ''Poppler installed at: /opt/poppler/bin'' @ [CHR 0x0A],
             stderr = []\<rparr>"
  let ?n = "\<lparr>returncode = 0, stdout = ''Poppler installed at: /opt'' @ [CHR 0x00] @ ''/bin'',
             stderr = []\<rparr>"
  have split: "possible_paths demo =
      [''/srv/backend/poppler/poppler-23.11.0/Library/bin'']
      @ ''/srv/backend/poppler/Library/bin''
      # [''/srv/backend/poppler/bin'', ''/srv/backend/poppler-23.11.0/Library/bin'']"
    by (simp add: demo_possible_paths)
  have first_missing:
    "\<forall>q \<in> set [''/srv/backend/poppler/poppler-23.11.0/Library/bin'']. \<not> Path_exists demo q"
    and second_there: "Path_exists demo ''/srv/backend/poppler/Library/bin''"
    by (simp_all add: demo_def Path_exists_def)
  have none_i: "\<forall>q \<in> set (possible_paths with_installer). \<not> Path_exists with_installer q"
    and script_i: "Path_exists with_installer ?script"
    and run_i: "run_installer with_installer ?script = Inr ?r"
    by (simp_all add: demo_possible_paths Path_exists_def)
      (simp_all add: with_installer_def demo_def)
  have none_n: "\<forall>q \<in> set (possible_paths with_nul_installer). \<not> Path_exists with_nul_installer q"
    and script_n: "Path_exists with_nul_installer ?script"
    and run_n: "run_installer with_nul_installer ?script = Inr ?n"
    by (simp_all add: demo_possible_paths Path_exists_def)
      (simp_all add: with_nul_installer_def with_installer_def demo_def)
  have none_b: "\<forall>q \<in> set (possible_paths bare). \<not> Path_exists bare q"
    and script_b: "\<not> Path_exists bare ?script"
    by (simp_all add: bare_def Path_exists_def)
  have parsed: "returncode ?r = 0" "re_search_installed (stdout ?r) = Some ''/opt/poppler/bin''"
    using demo_installer_output(1) by simp_all
  have parsed_n: "re_search_installed (stdout ?n) = Some (''/opt'' @ [CHR 0x00] @ ''/bin'')"
    "CHR 0x00 \<in> set (''/opt'' @ [CHR 0x00] @ ''/bin'')"
    using demo_installer_output(2) by simp_all
  have a: "environ (module_setup demo fresh) =
             (environ fresh)(POPPLER_PATH \<mapsto> ''/srv/backend/poppler/Library/bin'')
           \<and> new_calls fresh (module_setup demo fresh) =
             [PathExists ''/srv/backend/poppler/poppler-23.11.0/Library/bin'',
              PathExists ''/srv/backend/poppler/Library/bin'']"
    using module_setup_resolution
      [where X = demo and w = fresh
         and before = "[''/srv/backend/poppler/poppler-23.11.0/Library/bin'']"
         and p = "''/srv/backend/poppler/Library/bin''"
         and rest = "[''/srv/backend/poppler/bin'', ''/srv/backend/poppler-23.11.0/Library/bin'']",
        OF unset refl]
      split first_missing second_there by simp
  have b: "new_calls fresh (module_setup with_installer fresh) =
             map PathExists (possible_paths with_installer)
             @ [PathExists ?script, RunInstaller ?script]
           \<and> environ (module_setup with_installer fresh) =
             (environ fresh)(POPPLER_PATH \<mapsto> ''/opt/poppler/bin'')"
    using module_setup_resolution
      [where X = with_installer and w = fresh and script = ?script and r = ?r
         and found = "''/opt/poppler/bin''",
        OF unset]
      none_i script_i run_i parsed by (simp add: demo_script)
  have c: "new_calls fresh (module_setup bare fresh) =
             map PathExists (possible_paths bare) @ [PathExists ?script]
           \<and> environ (module_setup bare fresh) = environ fresh"
    using module_setup_resolution
      [where X = bare and w = fresh and script = ?script, OF unset]
      none_b script_b by (simp add: demo_script)
  have fails: "\<exists>r. run_installer with_nul_installer ?script = Inr r
                     \<and> (returncode r \<noteq> 0 \<or> re_search_installed (stdout r) = None
                         \<or> (\<exists>path. re_search_installed (stdout r) = Some path
                                   \<and> CHR 0x00 \<in> set path))"
    using run_n parsed_n by blast
  have script_eq: "?script = joinpath (base_dir with_nul_installer) [''install_poppler.py'']"
    by (simp add: demo_script)
  have d: "new_calls fresh (module_setup with_nul_installer fresh) =
             map PathExists (possible_paths with_nul_installer)
             @ [PathExists ?script, RunInstaller ?script]
           \<and> environ (module_setup with_nul_installer fresh) = environ fresh"
    using module_setup_resolution
      [where X = with_nul_installer and w = fresh and script = ?script, OF unset script_eq]
      none_n script_n fails by blast
  show ?thesis
    using unset a b c d run_n by (simp add: demo_possible_paths)
qed

text \<open>
  The claim as it stands, that the installer is run whenever no candidate exists, fails
  on a machine without \<^verbatim>\<open>install_poppler.py\<close>: five paths are tested and nothing is run.
\<close>

theorem installer_not_run_counterexample:
  "environ fresh POPPLER_PATH = None
   \<and> filter (Path_exists bare) (possible_paths bare) = []
   \<and> calls (module_setup bare fresh) =
       [PathExists ''/srv/backend/poppler/poppler-23.11.0/Library/bin'',
        PathExists ''/srv/backend/poppler/Library/bin'',
        PathExists ''/srv/backend/poppler/bin'',
        PathExists ''/srv/backend/poppler-23.11.0/Library/bin'',
        PathExists ''/srv/backend/install_poppler.py'']
   \<and> environ (module_setup bare fresh) POPPLER_PATH = None"
proof -
  have none: "\<forall>q \<in> set (possible_paths bare). \<not> Path_exists bare q"
    by (simp add: bare_def Path_exists_def)
  have unset: "\<not> truthy (environ fresh POPPLER_PATH)"
    by (simp add: fresh_def)
  have script: "\<not> Path_exists bare (joinpath (base_dir bare) [''install_poppler.py''])"
    by (simp add: bare_def Path_exists_def)
  have "calls (module_setup bare fresh) =
          map PathExists (possible_paths bare)
          @ [PathExists (joinpath (base_dir bare) [''install_poppler.py''])]"
    and "environ (module_setup bare fresh) = environ fresh"
    unfolding module_setup_unset_none [OF unset none]
    using script by (simp_all add: install_poppler_calls install_poppler_no_script fresh_def)
  moreover have "filter (Path_exists bare) (possible_paths bare) = []"
    by (simp add: bare_def Path_exists_def)
  ultimately show ?thesis
    by (simp add: demo_possible_paths demo_script fresh_def)
qed

section \<open>Images to document\<close>

text \<open>
  C6, as the code has it. A POST to the image-to-document route whose body the multipart
  parser does not accept is answered 500 with the parser's error in the body, although
  it carries no file. For a body the parser accepts: with no file under \<^verbatim>\<open>images\<close> the
  answer is 400 with the message \<^verbatim>\<open>No images provided\<close> and nothing is converted; otherwise
  the uploads are read and handed to the assembly routine once, in upload order; if
  assembly raises, the answer is 500 with the error's text in the body; if it returns,
  the answer is 200 with the assembled document, content type \<^verbatim>\<open>application/pdf\<close> and
  attachment filename \<^verbatim>\<open>converted.pdf\<close>.
\<close>

theorem images_to_pdf_responses:
  \<open>JpgToPdfView_post X (Unparsable e) w =
      (\<lparr>status = 500, content = ''Conversion failed: '' @ str_exn e,
        content_type = None, content_disposition = None\<rparr>, w)
   \<and> (getlist (FILES req) ''images'' = [] \<longrightarrow>
      JpgToPdfView_post X (Parsed req) w =
        (\<lparr>status = 400, content = ''No images provided'',
          content_type = None, content_disposition = None\<rparr>, w))
   \<and> (getlist (FILES req) ''images'' \<noteq> [] \<longrightarrow>
        new_calls w (snd (JpgToPdfView_post X (Parsed req) w)) =
          [Img2pdfConvert (map read (getlist (FILES req) ''images''))])
   \<and> (getlist (FILES req) ''images'' \<noteq> []
        \<and> img2pdf_convert X (map read (getlist (FILES req) ''images'')) = Inl e' \<longrightarrow>
        fst (JpgToPdfView_post X (Parsed req) w) =
          \<lparr>status = 500, content = ''Conversion failed: '' @ str_exn e',
           content_type = None, content_disposition = None\<rparr>)
   \<and> (getlist (FILES req) ''images'' \<noteq> []
        \<and> img2pdf_convert X (map read (getlist (FILES req) ''images'')) = Inr pdf_bytes \<longrightarrow>
        fst (JpgToPdfView_post X (Parsed req) w) =
          \<lparr>status = 200, content = pdf_bytes, content_type = Some ''application/pdf'',
           content_disposition = Some ''attachment; filename="converted.pdf"''\<rparr>)\<close>
  by (auto simp: JpgToPdfView_post_def JpgToPdfView_post_try_def Let_def HttpResponse_def
      new_calls_def log_call_def attachment_response_pdf split: sum.splits)

text \<open>No upload, two readable images, an image the assembly routine rejects, and a JSON body.\<close>

theorem images_to_pdf_responses_witness:
  \<open>JpgToPdfView_post demo (Parsed (images_request [])) fresh =
     (\<lparr>status = 400, content = ''No images provided'',
       content_type = None, content_disposition = None\<rparr>, fresh)
   \<and> new_calls fresh (snd (JpgToPdfView_post demo (Parsed (images_request [''a'', ''b''])) fresh)) =
       [Img2pdfConvert [''a'', ''b'']]
   \<and> fst (JpgToPdfView_post demo (Parsed (images_request [''a'', ''b''])) fresh) =
       \<lparr>status = 200, content = ''%PDFab'', content_type = Some ''application/pdf'',
        content_disposition = Some ''attachment; filename="converted.pdf"''\<rparr>
   \<and> fst (JpgToPdfView_post demo (Parsed (images_request [''a'', []])) fresh) =
       \<lparr>status = 500, content = ''Conversion failed: cannot read input image'',
        content_type = None, content_disposition = None\<rparr>
   \<and> JpgToPdfView_post demo (Unparsable (OtherException ''Unsupported media type'')) fresh =
       (\<lparr>status = 500, content = ''Conversion failed: Unsupported media type'',
         content_type = None, content_disposition = None\<rparr>, fresh)\<close>
proof -
  have none: "getlist (FILES (images_request [])) ''images'' = []"
    by (simp add: images_request_def getlist_def)
  have two: "getlist (FILES (images_request [''a'', ''b''])) ''images'' \<noteq> []"
    and ok: "img2pdf_convert demo
               (map read (getlist (FILES (images_request [''a'', ''b''])) ''images'')) =
             Inr ''%PDFab''"
    and sent: "map read (getlist (FILES (images_request [''a'', ''b''])) ''images'') =
               [''a'', ''b'']"
    by (simp_all add: images_request_def getlist_def demo_def)
  have bad: "getlist (FILES (images_request [''a'', []])) ''images'' \<noteq> []"
    and failed: "img2pdf_convert demo
               (map read (getlist (FILES (images_request [''a'', []])) ''images'')) =
             Inl (OtherException ''cannot read input image'')"
    by (simp_all add: images_request_def getlist_def demo_def)
  show ?thesis
    using images_to_pdf_responses
        [of demo "OtherException ''Unsupported media type''" fresh "images_request []"]
      images_to_pdf_responses
        [of demo _ fresh "images_request [''a'', ''b'']" _ "''%PDFab''"]
      images_to_pdf_responses
        [of demo _ fresh "images_request [''a'', []]"
           "OtherException ''cannot read input image''"]
      none two ok sent bad failed
    by simp
qed

text \<open>
  Stated for every POST, the claim fails: a JSON body carries no file, the read of
  \<^verbatim>\<open>request.FILES\<close> raises, and the answer is 500, not 400.
\<close>

theorem unparsed_post_counterexample:
  \<open>request_FILES json_post =
     Inl (OtherException ''Unsupported media type "application/json" in request.'')
   \<and> JpgToPdfView_post demo json_post fresh =
       (\<lparr>status = 500,
         content = ''Conversion failed: Unsupported media type "application/json" in request.'',
         content_type = None, content_disposition = None\<rparr>, fresh)\<close>
  by (simp add: json_post_def JpgToPdfView_post_def JpgToPdfView_post_try_def HttpResponse_def)

section \<open>The liveness probe\<close>

text \<open>
  C8. A HEAD request to the document-conversion route is answered with status 200 and an
  empty body. The handler reads neither the request nor the environment nor the
  filesystem and makes no call at all: the world is returned as it was, whatever the
  toolchain's state.
\<close>

theorem head_returns_empty_200:
  "PdfToJpgView_head X r w =
     (\<lparr>status = 200, content = [], content_type = None, content_disposition = None\<rparr>, w)"
  by (simp add: PdfToJpgView_head_def HttpResponse_def)

section \<open>Document to image: the missing document\<close>



section \<open>Document to image: a cached toolchain path that no longer exists\<close>

text \<open>
  C4, as the code has it. When \<^verbatim>\<open>POPPLER_PATH\<close> holds a non-empty path, the handler never
  writes the environment: whatever the request, it is the same after as before. When that
  path does not exist on the filesystem and the request carries the document, only the
  request's local variable is cleared and the conversion proceeds without a toolchain
  path: after the one test of the path, the first rasterization attempt is made with no
  \<^verbatim>\<open>poppler_path\<close>, the second (when the first raises) likewise, and the answer is the one
  these attempts give.
\<close>

theorem stale_path_dropped_for_request_only:
  assumes "environ w POPPLER_PATH = Some p" and "p \<noteq> []"
  shows "environ (snd (PdfToJpgView_post X r w)) = environ w
       \<and> (\<not> Path_exists X p \<and> FILES req ''pdf'' \<noteq> [] \<longrightarrow>
            (let b = read (last (FILES req ''pdf''));
                 f = str_lower X (get_default (POST req) ''format'' ''jpg'');
                 first = \<lparr>fmt = f, use_pdftocairo = True, timeout = Some 60,
                          poppler_path = None\<rparr>;
                 second = \<lparr>fmt = f, use_pdftocairo = False, timeout = None,
                           poppler_path = None\<rparr>
             in fst (find_poppler X w) = None
              \<and> new_calls w (snd (PdfToJpgView_post X (Parsed req) w)) =
                  PathExists p #
                    (case convert_from_bytes X b first of
                       Inr pages \<Rightarrow> [ConvertFromBytes b first]
                     | Inl e \<Rightarrow> [ConvertFromBytes b first, ConvertFromBytes b second])
              \<and> fst (PdfToJpgView_post X (Parsed req) w) =
                  (case convert_from_bytes X b first of
                     Inr pages \<Rightarrow> outer_handlers (after_rasterize X f pages)
                   | Inl e1 \<Rightarrow>
                       (case convert_from_bytes X b second of
                          Inr pages \<Rightarrow> outer_handlers (after_rasterize X f pages)
                        | Inl e2 \<Rightarrow>
                            \<lparr>status = 500,
                             content = ''PDF conversion failed. The PDF might be corrupted, password-protected, or Poppler is not properly installed.'',
                             content_type = None, content_disposition = None\<rparr>))))"
proof -
  let ?pp = "if Path_exists X p then Some p else None"
  let ?w1 = "log_call (PathExists p) w"
  have fp: "find_poppler X w = (?pp, ?w1)"
    by (rule find_poppler_cached [OF assms])
  have env: "environ (snd (PdfToJpgView_post X r w)) = environ w"
  proof (cases r)
    case (Unparsable e)
    then show ?thesis by (simp add: snd_post_unparsable)
  next
    case (Parsed q)
    show ?thesis
    proof (cases "FILES q ''pdf'' = []")
      case True
      with Parsed show ?thesis by (simp add: snd_post_absent)
    next
      case False
      let ?b = "read (last (FILES q ''pdf''))"
      let ?f = "str_lower X (get_default (POST q) ''format'' ''jpg'')"
      obtain res w2 where ra: "rasterize X ?f ?b ?pp ?w1 = (res, w2)"
        by (cases "rasterize X ?f ?b ?pp ?w1")
      have "snd (PdfToJpgView_post X (Parsed q) w) = w2"
        by (rule snd_post_try [OF False fp ra])
      with rasterize_calls [OF ra] Parsed show ?thesis
        by (simp add: log_call_def)
    qed
  qed
  have run: "fst (find_poppler X w) = None
      \<and> new_calls w (snd (PdfToJpgView_post X (Parsed req) w)) =
          PathExists p #
            (case convert_from_bytes X b (first_options f None) of
               Inr pages \<Rightarrow> [ConvertFromBytes b (first_options f None)]
             | Inl e \<Rightarrow> [ConvertFromBytes b (first_options f None),
                         ConvertFromBytes b (second_options f None)])
      \<and> fst (PdfToJpgView_post X (Parsed req) w) =
          (case convert_from_bytes X b (first_options f None) of
             Inr pages \<Rightarrow> outer_handlers (after_rasterize X f pages)
           | Inl e1 \<Rightarrow>
               (case convert_from_bytes X b (second_options f None) of
                  Inr pages \<Rightarrow> outer_handlers (after_rasterize X f pages)
                | Inl e2 \<Rightarrow> HttpResponse conversion_failed_message 500))"
    if gone: "\<not> Path_exists X p" and present: "FILES req ''pdf'' \<noteq> []"
      and b: "b = read (last (FILES req ''pdf''))"
      and f: "f = str_lower X (get_default (POST req) ''format'' ''jpg'')"
    for b f
  proof -
    from gone fp have fp': "find_poppler X w = (None, ?w1)" by simp
    obtain res w2 where ra: "rasterize X f b None ?w1 = (res, w2)"
      by (cases "rasterize X f b None ?w1")
    have w2: "snd (PdfToJpgView_post X (Parsed req) w) = w2"
      by (rule snd_post_try [OF present fp' ra [unfolded b f]])
    have res: "fst (rasterize X f b None ?w1) = res"
      using ra by simp
    from rasterize_calls [OF ra]
    have c: "new_calls w w2 = PathExists p #
            (case convert_from_bytes X b (first_options f None) of
               Inr pages \<Rightarrow> [ConvertFromBytes b (first_options f None)]
             | Inl e \<Rightarrow> [ConvertFromBytes b (first_options f None),
                         ConvertFromBytes b (second_options f None)])"
      by (simp add: new_calls_def log_call_def)
    from post_of_rasterize [OF present fp', folded b f, OF res] res
    have "fst (PdfToJpgView_post X (Parsed req) w) =
          (case convert_from_bytes X b (first_options f None) of
             Inr pages \<Rightarrow> outer_handlers (after_rasterize X f pages)
           | Inl e1 \<Rightarrow>
               (case convert_from_bytes X b (second_options f None) of
                  Inr pages \<Rightarrow> outer_handlers (after_rasterize X f pages)
                | Inl e2 \<Rightarrow> HttpResponse conversion_failed_message 500))"
      by (auto simp: rasterize_result split: sum.splits)
    with c w2 fp' show ?thesis by simp
  qed
  show ?thesis
  proof (intro conjI impI)
    show "environ (snd (PdfToJpgView_post X r w)) = environ w" by (rule env)
  next
    assume a: "\<not> Path_exists X p \<and> FILES req ''pdf'' \<noteq> []"
    from run [OF conjunct1 [OF a] conjunct2 [OF a] refl refl]
    show "(let b = read (last (FILES req ''pdf''));
                 f = str_lower X (get_default (POST req) ''format'' ''jpg'');
                 first = \<lparr>fmt = f, use_pdftocairo = True, timeout = Some 60,
                          poppler_path = None\<rparr>;
                 second = \<lparr>fmt = f, use_pdftocairo = False, timeout = None,
                           poppler_path = None\<rparr>
             in fst (find_poppler X w) = None
              \<and> new_calls w (snd (PdfToJpgView_post X (Parsed req) w)) =
                  PathExists p #
                    (case convert_from_bytes X b first of
                       Inr pages \<Rightarrow> [ConvertFromBytes b first]
                     | Inl e \<Rightarrow> [ConvertFromBytes b first, ConvertFromBytes b second])
              \<and> fst (PdfToJpgView_post X (Parsed req) w) =
                  (case convert_from_bytes X b first of
                     Inr pages \<Rightarrow> outer_handlers (after_rasterize X f pages)
                   | Inl e1 \<Rightarrow>
                       (case convert_from_bytes X b second of
                          Inr pages \<Rightarrow> outer_handlers (after_rasterize X f pages)
                        | Inl e2 \<Rightarrow>
                            \<lparr>status = 500,
                             content = ''PDF conversion failed. The PDF might be corrupted, password-protected, or Poppler is not properly installed.'',
                             content_type = None, content_disposition = None\<rparr>)))"
      by (simp add: Let_def first_options_def second_options_def HttpResponse_def
          conversion_failed_message_def split: sum.splits)
  qed
qed

text \<open>A process whose \<^verbatim>\<open>POPPLER_PATH\<close> names a directory that has been removed.\<close>

theorem stale_path_dropped_for_request_only_witness:
  \<open>environ stale POPPLER_PATH = Some ''/opt/gone/bin''
   \<and> ''/opt/gone/bin'' \<noteq> []
   \<and> \<not> Path_exists bare ''/opt/gone/bin''
   \<and> FILES (pdf_request ''one page'' []) ''pdf'' \<noteq> []
   \<and> environ (snd (PdfToJpgView_post bare (Parsed (pdf_request ''one page'' [])) stale)) =
       environ stale
   \<and> fst (find_poppler bare stale) = None
   \<and> new_calls stale (snd (PdfToJpgView_post bare (Parsed (pdf_request ''one page'' [])) stale)) =
       [PathExists ''/opt/gone/bin'',
        ConvertFromBytes ''one page''
          \<lparr>fmt = ''jpg'', use_pdftocairo = True, timeout = Some 60, poppler_path = None\<rparr>]
   \<and> fst (PdfToJpgView_post bare (Parsed (pdf_request ''one page'' [])) stale) =
       \<lparr>status = 200, content = ''jpeg1'', content_type = Some ''image/jpg'',
        content_disposition = Some ''attachment; filename="converted.jpg"''\<rparr>\<close>
proof -
  have e: "environ stale POPPLER_PATH = Some ''/opt/gone/bin''"
    by (simp add: stale_def)
  have ne: "''/opt/gone/bin'' \<noteq> []" by simp
  have gone: "\<not> Path_exists bare ''/opt/gone/bin''"
    by (simp add: Path_exists_def bare_def)
  have conv: "convert_from_bytes bare ''one page'' opts = Inr [1]" for opts
    by (simp add: bare_def demo_def)
  have save: "image_save bare (Suc 0) (JPEG 95) = Inr ''jpeg1''"
    by (simp add: bare_def demo_def string_of_digit)
  note page = one_page_jpg [OF demo_tables(3) save]
  show ?thesis
    using stale_path_dropped_for_request_only
      [OF e ne, of bare "Parsed (pdf_request ''one page'' [])" "pdf_request ''one page'' []"]
      e gone pdf_request_present [of "''one page''" "[]"]
    by (simp add: Let_def pdf_request_body pdf_request_default_format conv page)
qed

text \<open>
  The environment is not cleared: after the request the variable still holds the path
  that does not exist.
\<close>

theorem stale_path_not_cleared_counterexample:
  "environ stale POPPLER_PATH = Some ''/opt/gone/bin''
   \<and> \<not> Path_exists bare ''/opt/gone/bin''
   \<and> environ (snd (PdfToJpgView_post bare (Parsed (pdf_request ''one page'' [])) stale))
       POPPLER_PATH = Some ''/opt/gone/bin''"
proof -
  have e: "environ stale POPPLER_PATH = Some ''/opt/gone/bin''"
    by (simp add: stale_def)
  have gone: "\<not> Path_exists bare ''/opt/gone/bin''"
    by (simp add: Path_exists_def bare_def)
  let ?b = "''one page''"
  obtain res w2 where ra:
    "rasterize bare (str_lower bare (get_default (POST (pdf_request ?b [])) ''format'' ''jpg''))
       (read (last (FILES (pdf_request ?b []) ''pdf''))) None
       (log_call (PathExists ''/opt/gone/bin'') stale) = (res, w2)"
    by (metis prod.collapse)
  have fp: "find_poppler bare stale = (None, log_call (PathExists ''/opt/gone/bin'') stale)"
    using find_poppler_cached [OF e, of bare] gone by simp
  have "snd (PdfToJpgView_post bare (Parsed (pdf_request ?b [])) stale) = w2"
    by (rule snd_post_try [OF pdf_request_present fp ra])
  moreover from rasterize_calls [OF ra]
  have "environ w2 = environ stale" by (simp add: log_call_def)
  ultimately show ?thesis using e gone by simp
qed

section \<open>Document to image: the two rasterization attempts\<close>

text \<open>
  C2. When the \<^verbatim>\<open>pdf\<close> field is present, the rasterization calls of the handler are: one
  call with \<^verbatim>\<open>use_pdftocairo\<close> enabled and a timeout of 60 when that call returns; that call
  followed by one call with \<^verbatim>\<open>use_pdftocairo\<close> disabled and the same toolchain path when
  the first call raises. There is never a third call.
\<close>

theorem rasterization_attempts:
  assumes "FILES req ''pdf'' \<noteq> []"
  shows "(let b = read (last (FILES req ''pdf''));
              f = str_lower X (get_default (POST req) ''format'' ''jpg'');
              found = fst (find_poppler X w);
              pp = (if truthy found then found else None);
              first = \<lparr>fmt = f, use_pdftocairo = True, timeout = Some 60, poppler_path = pp\<rparr>;
              second = \<lparr>fmt = f, use_pdftocairo = False, timeout = None, poppler_path = pp\<rparr>
          in filter is_conversion (new_calls w (snd (PdfToJpgView_post X (Parsed req) w))) =
               (case convert_from_bytes X b first of
                  Inr images \<Rightarrow> [ConvertFromBytes b first]
                | Inl e \<Rightarrow> [ConvertFromBytes b first, ConvertFromBytes b second]))"
proof -
  let ?b = "read (last (FILES req ''pdf''))"
  let ?f = "str_lower X (get_default (POST req) ''format'' ''jpg'')"
  obtain pp w1 where fp: "find_poppler X w = (pp, w1)" by (cases "find_poppler X w")
  obtain r w2 where ra: "rasterize X ?f ?b pp w1 = (r, w2)" by (cases "rasterize X ?f ?b pp w1")
  from find_poppler_calls[OF fp] obtain qs where qs: "calls w1 = calls w @ map PathExists qs"
    by blast
  have w2: "snd (PdfToJpgView_post X (Parsed req) w) = w2"
    by (rule snd_post_try[OF assms fp ra])
  from rasterize_calls[OF ra] qs
  have "new_calls w w2 = map PathExists qs @
     (case convert_from_bytes X ?b (first_options ?f pp) of
        Inr images \<Rightarrow> [ConvertFromBytes ?b (first_options ?f pp)]
      | Inl e \<Rightarrow> [ConvertFromBytes ?b (first_options ?f pp),
                  ConvertFromBytes ?b (second_options ?f pp)])"
    by (simp add: new_calls_def)
  then have "filter is_conversion (new_calls w w2) =
     (case convert_from_bytes X ?b (first_options ?f pp) of
        Inr images \<Rightarrow> [ConvertFromBytes ?b (first_options ?f pp)]
      | Inl e \<Rightarrow> [ConvertFromBytes ?b (first_options ?f pp),
                  ConvertFromBytes ?b (second_options ?f pp)])"
    by (simp add: filter_conversion_probes split: sum.splits)
  with w2 fp show ?thesis
    by (simp add: Let_def first_options_def second_options_def split: sum.splits)
qed

text \<open>A document the first backend times out on, and one it renders at once.\<close>

theorem rasterization_attempts_witness:
  "FILES (pdf_request ''slow'' []) ''pdf'' \<noteq> []
   \<and> filter is_conversion
       (new_calls fresh (snd (PdfToJpgView_post demo (Parsed (pdf_request ''slow'' [])) fresh))) =
     [ConvertFromBytes ''slow''
        \<lparr>fmt = ''jpg'', use_pdftocairo = True, timeout = Some 60,
         poppler_path = Some ''/srv/backend/poppler/Library/bin''\<rparr>,
      ConvertFromBytes ''slow''
        \<lparr>fmt = ''jpg'', use_pdftocairo = False, timeout = None,
         poppler_path = Some ''/srv/backend/poppler/Library/bin''\<rparr>]
   \<and> filter is_conversion
       (new_calls fresh
          (snd (PdfToJpgView_post demo (Parsed (pdf_request ''one page'' [])) fresh))) =
     [ConvertFromBytes ''one page''
        \<lparr>fmt = ''jpg'', use_pdftocairo = True, timeout = Some 60,
         poppler_path = Some ''/srv/backend/poppler/Library/bin''\<rparr>]"
proof -
  show ?thesis
    using rasterization_attempts [OF pdf_request_present, of "''slow''" "[]" demo fresh]
      rasterization_attempts [OF pdf_request_present, of "''one page''" "[]" demo fresh]
      pdf_request_present [of "''slow''" "[]"]
    by (simp add: demo_find_poppler pdf_request_default_format pdf_request_body Let_def)
       (simp add: demo_def)
qed

section \<open>Document to image: failed rasterization\<close>

text \<open>
  C3, as the code has it. When the \<^verbatim>\<open>pdf\<close> field is present and both rasterization
  attempts raise, the answer is 500 with the message that the PDF might be corrupted,
  password-protected, or Poppler not properly installed. When rasterization returns an
  empty list of pages (from the first attempt, or from the second after the first
  raised), the answer is 500 as well, with a message of its own:
  \<^verbatim>\<open>Failed to extract images from PDF (no images extracted)\<close>.
\<close>

theorem failed_rasterization_is_500:
  assumes "FILES req ''pdf'' \<noteq> []"
    and "b = read (last (FILES req ''pdf''))"
    and "f = str_lower X (get_default (POST req) ''format'' ''jpg'')"
    and "pp = fst (find_poppler X w)"
  shows "(convert_from_bytes X b (first_options f pp) = Inl e1
          \<and> convert_from_bytes X b (second_options f pp) = Inl e2 \<longrightarrow>
            fst (PdfToJpgView_post X (Parsed req) w) =
              \<lparr>status = 500,
               content = ''PDF conversion failed. The PDF might be corrupted, password-protected, or Poppler is not properly installed.'',
               content_type = None, content_disposition = None\<rparr>)
       \<and> (convert_from_bytes X b (first_options f pp) = Inr []
          \<or> convert_from_bytes X b (first_options f pp) = Inl e1
            \<and> convert_from_bytes X b (second_options f pp) = Inr [] \<longrightarrow>
            fst (PdfToJpgView_post X (Parsed req) w) =
              \<lparr>status = 500,
               content = ''Failed to extract images from PDF (no images extracted)'',
               content_type = None, content_disposition = None\<rparr>)"
proof -
  obtain w1 where fp: "find_poppler X w = (pp, w1)"
    using assms(4) by (metis prod.collapse)
  note post = post_of_rasterize[OF assms(1) fp, folded assms(2,3)]
  show ?thesis
  proof (intro conjI impI)
    assume "convert_from_bytes X b (first_options f pp) = Inl e1
          \<and> convert_from_bytes X b (second_options f pp) = Inl e2"
    then have "fst (rasterize X f b pp w1) = Inl (HttpResponse conversion_failed_message 500)"
      by (simp add: rasterize_both_fail)
    from post[OF this] show "fst (PdfToJpgView_post X (Parsed req) w) =
              \<lparr>status = 500,
               content = ''PDF conversion failed. The PDF might be corrupted, password-protected, or Poppler is not properly installed.'',
               content_type = None, content_disposition = None\<rparr>"
      by (simp add: HttpResponse_def conversion_failed_message_def)
  next
    assume "convert_from_bytes X b (first_options f pp) = Inr []
          \<or> convert_from_bytes X b (first_options f pp) = Inl e1
            \<and> convert_from_bytes X b (second_options f pp) = Inr []"
    then have "fst (rasterize X f b pp w1) = Inr []"
      by (auto simp: rasterize_first_ok rasterize_second_ok)
    from post[OF this] show "fst (PdfToJpgView_post X (Parsed req) w) =
              \<lparr>status = 500,
               content = ''Failed to extract images from PDF (no images extracted)'',
               content_type = None, content_disposition = None\<rparr>"
      by (simp add: HttpResponse_def no_images_message_def after_rasterize_def)
  qed
qed

text \<open>A document both backends reject, and a document without pages.\<close>

theorem failed_rasterization_is_500_witness:
  "FILES (pdf_request ''odd'' []) ''pdf'' \<noteq> []
   \<and> convert_from_bytes demo ''odd''
        (first_options ''jpg'' (Some ''/srv/backend/poppler/Library/bin'')) =
       Inl (KeyError ''Pages'')
   \<and> convert_from_bytes demo ''odd''
        (second_options ''jpg'' (Some ''/srv/backend/poppler/Library/bin'')) =
       Inl (KeyError ''Pages'')
   \<and> fst (PdfToJpgView_post demo (Parsed (pdf_request ''odd'' [])) fresh) =
       \<lparr>status = 500,
        content = ''PDF conversion failed. The PDF might be corrupted, password-protected, or Poppler is not properly installed.'',
        content_type = None, content_disposition = None\<rparr>
   \<and> convert_from_bytes demo ''blank''
        (first_options ''jpg'' (Some ''/srv/backend/poppler/Library/bin'')) = Inr []
   \<and> fst (PdfToJpgView_post demo (Parsed (pdf_request ''blank'' [])) fresh) =
       \<lparr>status = 500,
        content = ''Failed to extract images from PDF (no images extracted)'',
        content_type = None, content_disposition = None\<rparr>"
proof -
  let ?pp = "Some ''/srv/backend/poppler/Library/bin''"
  have odd1: "convert_from_bytes demo ''odd'' (first_options ''jpg'' ?pp) =
                Inl (KeyError ''Pages'')"
    and odd2: "convert_from_bytes demo ''odd'' (second_options ''jpg'' ?pp) =
                Inl (KeyError ''Pages'')"
    and blank: "convert_from_bytes demo ''blank'' (first_options ''jpg'' ?pp) = Inr []"
    by (simp_all add: demo_def)
  have a: "fst (PdfToJpgView_post demo (Parsed (pdf_request ''odd'' [])) fresh) =
       \<lparr>status = 500,
        content = ''PDF conversion failed. The PDF might be corrupted, password-protected, or Poppler is not properly installed.'',
        content_type = None, content_disposition = None\<rparr>"
    using failed_rasterization_is_500
      [OF pdf_request_present pdf_request_body [symmetric]
          pdf_request_default_format(1) [symmetric] demo_find_poppler [symmetric],
        of "''odd''" "KeyError ''Pages''" "KeyError ''Pages''"]
      odd1 odd2 by simp
  have b: "fst (PdfToJpgView_post demo (Parsed (pdf_request ''blank'' [])) fresh) =
       \<lparr>status = 500,
        content = ''Failed to extract images from PDF (no images extracted)'',
        content_type = None, content_disposition = None\<rparr>"
    using failed_rasterization_is_500
      [OF pdf_request_present pdf_request_body [symmetric]
          pdf_request_default_format(1) [symmetric] demo_find_poppler [symmetric],
        of "''blank''"]
      blank by simp
  show ?thesis
    using a b odd1 odd2 blank pdf_request_present [of "''odd''" "[]"] by simp
qed

text \<open>
  For a document without pages the body is not the message about a corrupted or protected
  PDF or a missing Poppler: none of these words occurs in it.
\<close>

theorem zero_pages_message_counterexample:
  "FILES (pdf_request ''blank'' []) ''pdf'' \<noteq> []
   \<and> fst (rasterize demo ''jpg'' ''blank'' (fst (find_poppler demo fresh))
            (snd (find_poppler demo fresh))) = Inr []
   \<and> status (fst (PdfToJpgView_post demo (Parsed (pdf_request ''blank'' [])) fresh)) = 500
   \<and> content (fst (PdfToJpgView_post demo (Parsed (pdf_request ''blank'' [])) fresh)) =
       ''Failed to extract images from PDF (no images extracted)''
   \<and> \<not> contains ''corrupt''
         (content (fst (PdfToJpgView_post demo (Parsed (pdf_request ''blank'' [])) fresh)))
   \<and> \<not> contains ''protected''
         (content (fst (PdfToJpgView_post demo (Parsed (pdf_request ''blank'' [])) fresh)))
   \<and> \<not> contains ''Poppler''
         (content (fst (PdfToJpgView_post demo (Parsed (pdf_request ''blank'' [])) fresh)))"
proof -
  have blank: "convert_from_bytes demo ''blank'' (first_options ''jpg'' pp) = Inr []" for pp
    by (simp add: demo_def)
  have r: "fst (rasterize demo ''jpg'' ''blank'' (fst (find_poppler demo fresh))
            (snd (find_poppler demo fresh))) = Inr []"
    by (rule rasterize_first_ok [OF blank])
  have "fst (PdfToJpgView_post demo (Parsed (pdf_request ''blank'' [])) fresh) =
          HttpResponse no_images_message 500"
    using post_of_rasterize
        [where X = demo and w = fresh and req = "pdf_request ''blank'' []",
          OF pdf_request_present prod.collapse [symmetric] refl]
      r by (simp add: pdf_request_body pdf_request_default_format after_rasterize_def)
  then have c: "fst (PdfToJpgView_post demo (Parsed (pdf_request ''blank'' [])) fresh) =
       \<lparr>status = 500,
        content = ''Failed to extract images from PDF (no images extracted)'',
        content_type = None, content_disposition = None\<rparr>"
    by (simp add: HttpResponse_def no_images_message_def)
  show ?thesis
    unfolding c using r pdf_request_present [of "''blank''" "[]"] by simp
qed

section \<open>Document to image: packaging the pages\<close>

text \<open>
  C1, as the code has it. Let rasterization succeed, and let the pages be encoded in the
  requested format: PNG with compress level 1 when the lowercased format lowercases to
  \<^verbatim>\<open>png\<close>, JPEG with quality 95 otherwise.

  If exactly one page was produced and it encodes: when the format holds no carriage
  return and no line feed, the answer is 200 and its body is that page encoded; for a
  format of Latin-1 characters its content type is \<^verbatim>\<open>image/{format}\<close> and its disposition
  \<^verbatim>\<open>attachment; filename="converted.{format}"\<close>, for any other format the framework stores
  the MIME encoded words of these two values. When the format holds a carriage return or
  a line feed, the framework refuses the content type and the answer is 500.

  If more than one page was produced: when every page encodes and every entry name, cut
  at its first NUL, is at most 65535 bytes long, the answer is 200, its body is the
  archive of one entry per page, in page order, entry \<open>i\<close> (counted from 1) named
  \<^verbatim>\<open>page_{i}.{format}\<close> cut at its first NUL, its content type is \<^verbatim>\<open>application/zip\<close> and its
  disposition \<^verbatim>\<open>attachment; filename="converted.zip"\<close>. When a page encodes, after pages
  that were encoded and written, and its entry name is longer, the archive refuses the
  name and the answer is 500. A format without NUL leaves the names whole.
\<close>

theorem packaging_of_encoded_pages:
  assumes "FILES req ''pdf'' \<noteq> []"
    and "b = read (last (FILES req ''pdf''))"
    and "f = str_lower X (get_default (POST req) ''format'' ''jpg'')"
    and "find_poppler X w = (pp, w1)"
    and "fst (rasterize X f b pp w1) = Inr pages"
    and "enc = (if str_lower X f = ''png'' then PNG 1 else JPEG 95)"
  shows \<open>(pages = [page] \<and> image_save X page enc = Inr data
          \<and> CHR 0x0A \<notin> set f \<and> CHR 0x0D \<notin> set f \<longrightarrow>
            fst (PdfToJpgView_post X (Parsed req) w) =
              (if \<forall>c \<in> set f. (of_char c :: nat) < 196
               then \<lparr>status = 200, content = data, content_type = Some (''image/'' @ f),
                     content_disposition =
                       Some (''attachment; filename="converted.'' @ f @ ''"'')\<rparr>
               else \<lparr>status = 200, content = data,
                     content_type = Some (mime_encode X (''image/'' @ f)),
                     content_disposition =
                       Some (mime_encode X (''attachment; filename="converted.'' @ f @ ''"''))\<rparr>))
       \<and> (pages = [page] \<and> image_save X page enc = Inr data
          \<and> (CHR 0x0A \<in> set f \<or> CHR 0x0D \<in> set f) \<longrightarrow>
            fst (PdfToJpgView_post X (Parsed req) w) =
              \<lparr>status = 500,
               content = ''Conversion failed: Header values can't contain newlines (got ''
                         @ py_repr X (''image/'' @ f) @ '')'',
               content_type = None, content_disposition = None\<rparr>)
       \<and> (1 < length pages \<and> map (\<lambda>page. image_save X page enc) pages = map Inr datas
          \<and> (\<forall>i \<in> {1..length pages}.
                length (takeWhile (\<lambda>c. c \<noteq> CHR 0x00) (''page_'' @ string_of_nat i @ ''.'' @ f))
                  \<le> 65535) \<longrightarrow>
            fst (PdfToJpgView_post X (Parsed req) w) =
              \<lparr>status = 200,
               content = zip_getvalue X
                 (map (\<lambda>(i, data).
                         (takeWhile (\<lambda>c. c \<noteq> CHR 0x00) (''page_'' @ string_of_nat i @ ''.'' @ f),
                          data))
                    (enumerate 1 datas)),
               content_type = Some ''application/zip'',
               content_disposition = Some ''attachment; filename="converted.zip"''\<rparr>)
       \<and> (1 < length pages \<and> pages = before @ page # rest
          \<and> map (\<lambda>page. image_save X page enc) before = map Inr datas
          \<and> (\<forall>i \<in> {1..length before}.
                length (takeWhile (\<lambda>c. c \<noteq> CHR 0x00) (''page_'' @ string_of_nat i @ ''.'' @ f))
                  \<le> 65535)
          \<and> image_save X page enc = Inr data
          \<and> 65535 < length (takeWhile (\<lambda>c. c \<noteq> CHR 0x00)
                              (''page_'' @ string_of_nat (length before + 1) @ ''.'' @ f)) \<longrightarrow>
            fst (PdfToJpgView_post X (Parsed req) w) =
              \<lparr>status = 500, content = ''Conversion failed: '' @ struct_error X,
               content_type = None, content_disposition = None\<rparr>)
       \<and> (CHR 0x00 \<notin> set f \<longrightarrow>
            takeWhile (\<lambda>c. c \<noteq> CHR 0x00) (''page_'' @ string_of_nat i @ ''.'' @ f) =
              ''page_'' @ string_of_nat i @ ''.'' @ f)\<close>
proof -
  have enc: "encode_page X f page = image_save X page enc" for page
    unfolding assms(6) by (simp add: encode_page_def)
  have encs: "encode_page X f = (\<lambda>page. image_save X page enc)"
    by (rule ext) (rule enc)
  note post = post_of_rasterize [OF assms(1,4), folded assms(2,3), OF assms(5)]
  have one: "fst (PdfToJpgView_post X (Parsed req) w) =
              (if \<forall>c \<in> set f. (of_char c :: nat) < 196
               then \<lparr>status = 200, content = data, content_type = Some (''image/'' @ f),
                     content_disposition =
                       Some (''attachment; filename=\"converted.'' @ f @ ''\"'')\<rparr>
               else \<lparr>status = 200, content = data,
                     content_type = Some (mime_encode X (''image/'' @ f)),
                     content_disposition =
                       Some (mime_encode X (''attachment; filename=\"converted.'' @ f @ ''\"''))\<rparr>)"
    if "pages = [page]" "image_save X page enc = Inr data"
      "CHR 0x0A \<notin> set f" "CHR 0x0D \<notin> set f"
  proof -
    have n: "\<not> has_newline f" using that(3,4) by (simp add: has_newline_iff)
    have e: "encode_page X f page = Inr data" by (simp add: enc that(2))
    have "fst (PdfToJpgView_post X (Parsed req) w) =
            \<lparr>status = 200, content = data,
             content_type = Some (header_text X (''image/'' @ f)),
             content_disposition =
               Some (header_text X (''attachment; filename=\"converted.'' @ f @ ''\"''))\<rparr>"
      by (simp only: post that(1) sum.case after_rasterize_nonempty [OF list.simps(3)]
          package_one [OF e] attachment_response_image [OF n] outer_handlers.simps)
    note h = this
    show ?thesis
    proof (cases "\<forall>c \<in> set f. (of_char c :: nat) < 196")
      case True
      from h show ?thesis unfolding image_labels if_P [OF True] .
    next
      case False
      from h show ?thesis unfolding image_labels if_not_P [OF False] .
    qed
  qed
  have refused: "fst (PdfToJpgView_post X (Parsed req) w) =
              \<lparr>status = 500,
               content = ''Conversion failed: Header values can't contain newlines (got ''
                         @ py_repr X (''image/'' @ f) @ '')'',
               content_type = None, content_disposition = None\<rparr>"
    if "pages = [page]" "image_save X page enc = Inr data"
      "CHR 0x0A \<in> set f \<or> CHR 0x0D \<in> set f"
  proof -
    have n: "has_newline f" using that(3) by (simp add: has_newline_iff)
    have e: "encode_page X f page = Inr data" by (simp add: enc that(2))
    have "fst (PdfToJpgView_post X (Parsed req) w) =
            HttpResponse (''Conversion failed: '' @
              (''Header values can't contain newlines (got '' @ py_repr X (''image/'' @ f) @ '')''))
              500"
      by (simp only: post that(1) sum.case after_rasterize_nonempty [OF list.simps(3)]
          package_one [OF e] attachment_response_image_newline [OF n] outer_handlers.simps)
    then show ?thesis by (simp add: HttpResponse_def)
  qed
  have many: "fst (PdfToJpgView_post X (Parsed req) w) =
              \<lparr>status = 200,
               content = zip_getvalue X
                 (map (\<lambda>(i, data).
                         (takeWhile (\<lambda>c. c \<noteq> CHR 0x00) (''page_'' @ string_of_nat i @ ''.'' @ f),
                          data))
                    (enumerate 1 datas)),
               content_type = Some ''application/zip'',
               content_disposition = Some ''attachment; filename=\"converted.zip\"''\<rparr>"
    if "1 < length pages" "map (\<lambda>page. image_save X page enc) pages = map Inr datas"
      "\<forall>i \<in> {1..length pages}.
                length (takeWhile (\<lambda>c. c \<noteq> CHR 0x00) (''page_'' @ string_of_nat i @ ''.'' @ f))
                  \<le> 65535"
  proof -
    have m: "map (encode_page X f) pages = map Inr datas"
      using that(2) by (simp add: encs)
    have fits: "\<forall>k \<in> {1..length pages}.
           length (stored_name (''page_'' @ string_of_nat k @ ''.'' @ f)) \<le> 65535"
      using that(3) by (simp add: stored_name_def)
    from that(1) have "pages \<noteq> []" by auto
    with post package_many [OF that(1) m fits] show ?thesis
      by (simp add: after_rasterize_def stored_name_def)
  qed
  have long: "fst (PdfToJpgView_post X (Parsed req) w) =
              \<lparr>status = 500, content = ''Conversion failed: '' @ struct_error X,
               content_type = None, content_disposition = None\<rparr>"
    if "1 < length pages" "pages = before @ page # rest"
      "map (\<lambda>page. image_save X page enc) before = map Inr datas"
      "\<forall>i \<in> {1..length before}.
                length (takeWhile (\<lambda>c. c \<noteq> CHR 0x00) (''page_'' @ string_of_nat i @ ''.'' @ f))
                  \<le> 65535"
      "image_save X page enc = Inr data"
      "65535 < length (takeWhile (\<lambda>c. c \<noteq> CHR 0x00)
                              (''page_'' @ string_of_nat (length before + 1) @ ''.'' @ f))"
  proof -
    have m: "map (encode_page X f) before = map Inr datas"
      using that(3) by (simp add: encs)
    have fits: "\<forall>k \<in> {1..length before}.
           length (stored_name (''page_'' @ string_of_nat k @ ''.'' @ f)) \<le> 65535"
      using that(4) by (simp add: stored_name_def)
    have e: "encode_page X f page = Inr data" by (simp add: enc that(5))
    have l: "65535 < length (stored_name
                          (''page_'' @ string_of_nat (length before + 1) @ ''.'' @ f))"
      using that(6) by (simp add: stored_name_def)
    have len: "1 < length (before @ page # rest)" using that(1,2) by simp
    have "after_rasterize X f (before @ page # rest) = Inl (OtherException (struct_error X))"
      using package_name_fail [OF len m fits e l] by (simp add: after_rasterize_def)
    with post that(2) show ?thesis by (simp add: HttpResponse_def)
  qed
  have whole: "takeWhile (\<lambda>c. c \<noteq> CHR 0x00) (''page_'' @ string_of_nat i @ ''.'' @ f) =
              ''page_'' @ string_of_nat i @ ''.'' @ f"
    if "CHR 0x00 \<notin> set f"
    using stored_name_page [OF that, of i] by (simp add: stored_name_def)
  from one refused many long whole show ?thesis by blast
qed

text \<open>
  A one-page document as JPEG; a three-page document as PNG, with its second entry name;
  a one-page document asked for in a format that ends in a line feed; and a three-page
  document asked for in a format of 65536 letters.
\<close>

theorem packaging_of_encoded_pages_witness:
  \<open>FILES (pdf_request ''one page'' []) ''pdf'' \<noteq> []
   \<and> fst (rasterize demo ''jpg'' ''one page'' (fst (find_poppler demo fresh))
            (snd (find_poppler demo fresh))) = Inr [1]
   \<and> image_save demo 1 (JPEG 95) = Inr ''jpeg1''
   \<and> fst (PdfToJpgView_post demo (Parsed (pdf_request ''one page'' [])) fresh) =
       \<lparr>status = 200, content = ''jpeg1'', content_type = Some ''image/jpg'',
        content_disposition = Some ''attachment; filename="converted.jpg"''\<rparr>
   \<and> fst (rasterize demo ''png'' ''three pages'' (fst (find_poppler demo fresh))
            (snd (find_poppler demo fresh))) = Inr [1, 2, 3]
   \<and> map (\<lambda>page. image_save demo page (PNG 1)) [1, 2, 3] = map Inr [''png1'', ''png2'', ''png3'']
   \<and> fst (PdfToJpgView_post demo (Parsed (pdf_request ''three pages'' [''PNG''])) fresh) =
       \<lparr>status = 200,
        content = zip_getvalue demo
          [(''page_1.png'', ''png1''), (''page_2.png'', ''png2''), (''page_3.png'', ''png3'')],
        content_type = Some ''application/zip'',
        content_disposition = Some ''attachment; filename="converted.zip"''\<rparr>
   \<and> takeWhile (\<lambda>c. c \<noteq> CHR 0x00) (''page_'' @ string_of_nat 2 @ ''.'' @ ''png'') =
       ''page_2.png''
   \<and> str_lower demo (get_default (POST (pdf_request ''one page'' [''jpg'' @ [CHR 0x0A]]))
        ''format'' ''jpg'') = ''jpg'' @ [CHR 0x0A]
   \<and> fst (rasterize demo (''jpg'' @ [CHR 0x0A]) ''one page'' (fst (find_poppler demo fresh))
            (snd (find_poppler demo fresh))) = Inr [1]
   \<and> fst (PdfToJpgView_post demo (Parsed (pdf_request ''one page'' [''jpg'' @ [CHR 0x0A]])) fresh) =
       \<lparr>status = 500,
        content = ''Conversion failed: Header values can't contain newlines (got ''
                  @ [CHR 0x27] @ ''image/jpg'' @ [CHR 0x5C] @ ''n'' @ [CHR 0x27] @ '')'',
        content_type = None, content_disposition = None\<rparr>
   \<and> str_lower demo (get_default (POST (pdf_request ''three pages'' [long_format]))
        ''format'' ''jpg'') = long_format
   \<and> fst (rasterize demo long_format ''three pages'' (fst (find_poppler demo fresh))
            (snd (find_poppler demo fresh))) = Inr [1, 2, 3]
   \<and> 65535 < length (takeWhile (\<lambda>c. c \<noteq> CHR 0x00)
                       (''page_'' @ string_of_nat 1 @ ''.'' @ long_format))
   \<and> fst (PdfToJpgView_post demo (Parsed (pdf_request ''three pages'' [long_format])) fresh) =
       \<lparr>status = 500,
        content = ''Conversion failed: ushort format requires 0 <= number <= 65535'',
        content_type = None, content_disposition = None\<rparr>\<close>
proof -
  let ?n = "''jpg'' @ [CHR 0x0A]"
  have present: "FILES (pdf_request ''one page'' []) ''pdf'' \<noteq> []"
    by (rule pdf_request_present)
  have one: "fst (rasterize demo ''jpg'' ''one page'' (fst (find_poppler demo fresh))
            (snd (find_poppler demo fresh))) = Inr [1]"
    by (rule rasterize_first_ok) (simp add: demo_def)
  have three: "fst (rasterize demo ''png'' ''three pages'' (fst (find_poppler demo fresh))
            (snd (find_poppler demo fresh))) = Inr [1, 2, 3]"
    by (rule rasterize_first_ok) (simp add: demo_def)
  have jpeg: "image_save demo 1 (JPEG 95) = Inr ''jpeg1''"
    by (simp add: demo_def string_of_digit)
  have pngs: "map (\<lambda>page. image_save demo page (PNG 1)) [1, 2, 3] =
                map Inr [''png1'', ''png2'', ''png3'']"
    by (simp add: demo_def string_of_digit)
  have fits: "\<forall>i \<in> {1..length [1, 2, 3 :: nat]}.
      length (takeWhile (\<lambda>c. c \<noteq> CHR 0x00) (''page_'' @ string_of_nat i @ ''.'' @ ''png''))
        \<le> 65535"
  proof
    fix i :: nat
    assume "i \<in> {1..length [1, 2, 3 :: nat]}"
    then have "i = Suc 0 \<or> i = 2 \<or> i = 3" by auto
    then show "length (takeWhile (\<lambda>c. c \<noteq> CHR 0x00)
                  (''page_'' @ string_of_nat i @ ''.'' @ ''png'')) \<le> 65535"
      by (auto simp: string_of_digit)
  qed
  have names: "map (\<lambda>(i, data).
                      (takeWhile (\<lambda>c. c \<noteq> CHR 0x00) (''page_'' @ string_of_nat i @ ''.'' @ ''png''),
                       data))
                 (enumerate 1 [''png1'', ''png2'', ''png3'']) =
               [(''page_1.png'', ''png1''), (''page_2.png'', ''png2''), (''page_3.png'', ''png3'')]"
    by code_simp
  have a: \<open>fst (PdfToJpgView_post demo (Parsed (pdf_request ''one page'' [])) fresh) =
       \<lparr>status = 200, content = ''jpeg1'', content_type = Some ''image/jpg'',
        content_disposition = Some ''attachment; filename="converted.jpg"''\<rparr>\<close>
    using packaging_of_encoded_pages
      [where X = demo and w = fresh and req = "pdf_request ''one page'' []"
         and pages = "[1]" and page = 1 and data = "''jpeg1''",
        OF pdf_request_present pdf_request_body [symmetric]
          pdf_request_default_format(1) [symmetric] prod.collapse [symmetric] one refl]
      jpeg by (simp add: demo_tables ascii_lower_examples)
  note png = packaging_of_encoded_pages
        [where X = demo and w = fresh and req = "pdf_request ''three pages'' [''PNG'']"
           and pages = "[1, 2, 3]" and datas = "[''png1'', ''png2'', ''png3'']" and i = 2,
          OF pdf_request_present pdf_request_body [symmetric]
            pdf_request_png_format [symmetric] prod.collapse [symmetric] three refl]
  have b: \<open>fst (PdfToJpgView_post demo (Parsed (pdf_request ''three pages'' [''PNG''])) fresh) =
       \<lparr>status = 200,
        content = zip_getvalue demo
          [(''page_1.png'', ''png1''), (''page_2.png'', ''png2''), (''page_3.png'', ''png3'')],
        content_type = Some ''application/zip'',
        content_disposition = Some ''attachment; filename="converted.zip"''\<rparr>\<close>
  proof -
    have "1 < length [1, 2, 3 :: nat]" by simp
    moreover have "map (\<lambda>page. image_save demo page
                          (if str_lower demo ''png'' = ''png'' then PNG 1 else JPEG 95))
                     [1, 2, 3] = map Inr [''png1'', ''png2'', ''png3'']"
      using pngs by (simp add: demo_tables ascii_lower_examples)
    ultimately show ?thesis
      using png fits unfolding names by blast
  qed
  have c: "takeWhile (\<lambda>c. c \<noteq> CHR 0x00) (''page_'' @ string_of_nat 2 @ ''.'' @ ''png'') =
             ''page_2.png''"
  proof -
    have "CHR 0x00 \<notin> set ''png''" by simp
    with png have "takeWhile (\<lambda>c. c \<noteq> CHR 0x00) (''page_'' @ string_of_nat 2 @ ''.'' @ ''png'') =
                     ''page_'' @ string_of_nat 2 @ ''.'' @ ''png''"
      by blast
    then show ?thesis by (simp add: string_of_digit)
  qed
  have fmt_n: "str_lower demo (get_default (POST (pdf_request ''one page'' [?n])) ''format'' ''jpg'')
               = ?n"
    unfolding pdf_request_format demo_tables by (rule newline_jpg_lower)
  have r_n: "fst (rasterize demo ?n ''one page'' (fst (find_poppler demo fresh))
            (snd (find_poppler demo fresh))) = Inr [1]"
    by (rule rasterize_first_ok) (simp add: demo_def)
  have d: \<open>fst (PdfToJpgView_post demo (Parsed (pdf_request ''one page'' [?n])) fresh) =
       \<lparr>status = 500,
        content = ''Conversion failed: Header values can't contain newlines (got ''
                  @ [CHR 0x27] @ ''image/jpg'' @ [CHR 0x5C] @ ''n'' @ [CHR 0x27] @ '')'',
        content_type = None, content_disposition = None\<rparr>\<close>
  proof -
    have "image_save demo 1 (if str_lower demo ?n = ''png'' then PNG 1 else JPEG 95) =
            Inr ''jpeg1''"
      unfolding demo_tables newline_jpg_lower using jpeg by simp
    moreover have "CHR 0x0A \<in> set ?n \<or> CHR 0x0D \<in> set ?n" by simp
    ultimately have "fst (PdfToJpgView_post demo (Parsed (pdf_request ''one page'' [?n])) fresh) =
       \<lparr>status = 500,
        content = ''Conversion failed: Header values can't contain newlines (got ''
                  @ py_repr demo (''image/'' @ ?n) @ '')'',
        content_type = None, content_disposition = None\<rparr>"
      using packaging_of_encoded_pages
        [where X = demo and w = fresh and req = "pdf_request ''one page'' [?n]"
           and pages = "[1]" and page = 1 and data = "''jpeg1''",
          OF pdf_request_present pdf_request_body [symmetric]
            fmt_n [symmetric] prod.collapse [symmetric] r_n refl]
      by blast
    then show ?thesis by (simp add: demo_tables ascii_repr_def)
  qed
  have fmt_l: "str_lower demo (get_default (POST (pdf_request ''three pages'' [long_format]))
                 ''format'' ''jpg'') = long_format"
    unfolding pdf_request_format demo_tables by (rule long_format_lower)
  have r_l: "fst (rasterize demo long_format ''three pages'' (fst (find_poppler demo fresh))
            (snd (find_poppler demo fresh))) = Inr [1, 2, 3]"
    by (rule rasterize_first_ok) (simp add: demo_def)
  have name_l: "65535 < length (takeWhile (\<lambda>c. c \<noteq> CHR 0x00)
                       (''page_'' @ string_of_nat 1 @ ''.'' @ long_format))"
    by (rule long_format_name)
  have e: "fst (PdfToJpgView_post demo (Parsed (pdf_request ''three pages'' [long_format])) fresh) =
       \<lparr>status = 500,
        content = ''Conversion failed: ushort format requires 0 <= number <= 65535'',
        content_type = None, content_disposition = None\<rparr>"
  proof -
    have h1: "1 < length [1, 2, 3 :: nat]" by simp
    have h2: "[1, 2, 3 :: nat] = [] @ 1 # [2, 3]" by simp
    have h3: "map (\<lambda>page. image_save demo page
                     (if str_lower demo long_format = ''png'' then PNG 1 else JPEG 95)) [] =
              map Inr []"
      by simp
    have h4: "\<forall>i \<in> {1..length ([] :: nat list)}.
                length (takeWhile (\<lambda>c. c \<noteq> CHR 0x00)
                          (''page_'' @ string_of_nat i @ ''.'' @ long_format)) \<le> 65535"
      by simp
    have h5: "image_save demo 1
                (if str_lower demo long_format = ''png'' then PNG 1 else JPEG 95) = Inr ''jpeg1''"
      unfolding demo_tables long_format_lower using jpeg long_format_not_png by simp
    have h6: "65535 < length (takeWhile (\<lambda>c. c \<noteq> CHR 0x00)
                (''page_'' @ string_of_nat (length ([] :: nat list) + 1) @ ''.'' @ long_format))"
      by (rule long_format_name)
    have "fst (PdfToJpgView_post demo (Parsed (pdf_request ''three pages'' [long_format])) fresh) =
       \<lparr>status = 500, content = ''Conversion failed: '' @ struct_error demo,
        content_type = None, content_disposition = None\<rparr>"
      using packaging_of_encoded_pages
        [where X = demo and w = fresh and req = "pdf_request ''three pages'' [long_format]"
           and pages = "[1, 2, 3]" and before = "[]" and page = 1 and rest = "[2, 3]"
           and datas = "[]" and data = "''jpeg1''",
          OF pdf_request_present pdf_request_body [symmetric]
            fmt_l [symmetric] prod.collapse [symmetric] r_l refl]
        h1 h2 h3 h4 h5 h6
      by blast
    then show ?thesis by (simp add: demo_def)
  qed
  show ?thesis
    by (intro conjI) (fact present one jpeg a three pngs b c fmt_n r_n d fmt_l r_l name_l e)+
qed

text \<open>
  Without the condition on encoding the statement fails: rasterization returns one page,
  \<^verbatim>\<open>save\<close> raises, and the answer is 500.
\<close>

theorem encoding_failure_counterexample:
  "FILES (pdf_request ''unwritable'' []) ''pdf'' \<noteq> []
   \<and> fst (rasterize demo ''jpg'' ''unwritable'' (fst (find_poppler demo fresh))
            (snd (find_poppler demo fresh))) = Inr [0]
   \<and> fst (PdfToJpgView_post demo (Parsed (pdf_request ''unwritable'' [])) fresh) =
       \<lparr>status = 500, content = ''Conversion failed: cannot write image'',
        content_type = None, content_disposition = None\<rparr>"
proof -
  have r: "fst (rasterize demo ''jpg'' ''unwritable'' (fst (find_poppler demo fresh))
            (snd (find_poppler demo fresh))) = Inr [0]"
    by (rule rasterize_first_ok) (simp add: demo_def)
  have e: "encode_page demo ''jpg'' 0 = Inl (OtherException ''cannot write image'')"
    by (simp add: encode_page_def demo_tables ascii_lower_examples) (simp add: demo_def)
  have p: "package demo ''jpg'' [0] = Inl (OtherException ''cannot write image'')"
    using package_fail [of demo "''jpg''" "[]" "[]" 0 "OtherException ''cannot write image''" "[]"]
      e by simp
  have "fst (PdfToJpgView_post demo (Parsed (pdf_request ''unwritable'' [])) fresh) =
          HttpResponse (''Conversion failed: '' @ ''cannot write image'') 500"
    using post_of_rasterize
        [where X = demo and w = fresh and req = "pdf_request ''unwritable'' []",
          OF pdf_request_present prod.collapse [symmetric] refl]
      r p by (simp add: pdf_request_body pdf_request_default_format after_rasterize_def)
  then show ?thesis
    using r pdf_request_present [of "''unwritable''" "[]"] by (simp add: HttpResponse_def)
qed

section \<open>Document to image: the format field is not validated\<close>




section \<open>Document to image: what becomes of a KeyError\<close>

text \<open>
  C10, as the code has it. Every \<^verbatim>\<open>KeyError\<close> that leaves the body of the outer \<^verbatim>\<open>try\<close> is
  answered 400 with the body \<^verbatim>\<open>No PDF file uploaded\<close>: the lookup of a missing \<^verbatim>\<open>pdf\<close> field,
  and also a \<^verbatim>\<open>KeyError\<close> raised while a page is encoded (the pages before it encoded and
  written to the archive).

  A \<^verbatim>\<open>KeyError\<close> raised by a rasterization attempt never leaves the body: the inner
  handlers catch it like any other error. When the first attempt raises, whatever it
  raises, the answer is the one the second attempt gives: the packaging of its pages when
  it returns, 500 with the conversion-failed message when it raises, whatever it raises.
\<close>

theorem keyerror_outcomes:
  assumes "b = read (last (FILES req ''pdf''))"
    and "f = str_lower X (get_default (POST req) ''format'' ''jpg'')"
    and "find_poppler X w = (pp, w1)"
    and "enc = (if str_lower X f = ''png'' then PNG 1 else JPEG 95)"
  shows "(fst (PdfToJpgView_post_try X r w) = Inl (KeyError k) \<longrightarrow>
            fst (PdfToJpgView_post X r w) =
              \<lparr>status = 400, content = ''No PDF file uploaded'',
               content_type = None, content_disposition = None\<rparr>)
       \<and> (FILES req ''pdf'' = [] \<longrightarrow>
            fst (PdfToJpgView_post X (Parsed req) w) =
              \<lparr>status = 400, content = ''No PDF file uploaded'',
               content_type = None, content_disposition = None\<rparr>)
       \<and> (FILES req ''pdf'' \<noteq> []
          \<and> fst (rasterize X f b pp w1) = Inr (before @ page # rest)
          \<and> map (\<lambda>page. image_save X page enc) before = map Inr datas
          \<and> (\<forall>i \<in> {1..length before}.
                length (takeWhile (\<lambda>c. c \<noteq> CHR 0x00) (''page_'' @ string_of_nat i @ ''.'' @ f))
                  \<le> 65535)
          \<and> image_save X page enc = Inl (KeyError k) \<longrightarrow>
            fst (PdfToJpgView_post X (Parsed req) w) =
              \<lparr>status = 400, content = ''No PDF file uploaded'',
               content_type = None, content_disposition = None\<rparr>)
       \<and> (FILES req ''pdf'' \<noteq> []
          \<and> convert_from_bytes X b (first_options f pp) = Inl e1 \<longrightarrow>
            fst (PdfToJpgView_post X (Parsed req) w) =
              (case convert_from_bytes X b (second_options f pp) of
                 Inr pages \<Rightarrow> outer_handlers (after_rasterize X f pages)
               | Inl e2 \<Rightarrow>
                   \<lparr>status = 500,
                    content = ''PDF conversion failed. The PDF might be corrupted, password-protected, or Poppler is not properly installed.'',
                    content_type = None, content_disposition = None\<rparr>))"
proof -
  have enc: "encode_page X f page = image_save X page enc" for page
    unfolding assms(4) by (simp add: encode_page_def)
  have encs: "encode_page X f = (\<lambda>page. image_save X page enc)"
    by (rule ext) (rule enc)
  have leaves: "fst (PdfToJpgView_post X r w) =
              \<lparr>status = 400, content = ''No PDF file uploaded'',
               content_type = None, content_disposition = None\<rparr>"
    if "fst (PdfToJpgView_post_try X r w) = Inl (KeyError k)"
    using post_of_try_keyerror [OF that] by (simp add: HttpResponse_def)
  have missing: "fst (PdfToJpgView_post X (Parsed req) w) =
              \<lparr>status = 400, content = ''No PDF file uploaded'',
               content_type = None, content_disposition = None\<rparr>"
    if "FILES req ''pdf'' = []"
    using that
    by (simp add: PdfToJpgView_post_def PdfToJpgView_post_try_def getitem_def HttpResponse_def)
  have encode: "fst (PdfToJpgView_post X (Parsed req) w) =
              \<lparr>status = 400, content = ''No PDF file uploaded'',
               content_type = None, content_disposition = None\<rparr>"
    if "FILES req ''pdf'' \<noteq> []"
      "fst (rasterize X f b pp w1) = Inr (before @ page # rest)"
      "map (\<lambda>page. image_save X page enc) before = map Inr datas"
      "\<forall>i \<in> {1..length before}.
                length (takeWhile (\<lambda>c. c \<noteq> CHR 0x00) (''page_'' @ string_of_nat i @ ''.'' @ f))
                  \<le> 65535"
      "image_save X page enc = Inl (KeyError k)"
  proof -
    note post = post_of_rasterize [OF that(1) assms(3), folded assms(1,2), OF that(2)]
    have m: "map (encode_page X f) before = map Inr datas"
      using that(3) by (simp add: encs)
    have fits: "\<forall>k \<in> {1..length before}.
           length (stored_name (''page_'' @ string_of_nat k @ ''.'' @ f)) \<le> 65535"
      using that(4) by (simp add: stored_name_def)
    have e: "encode_page X f page = Inl (KeyError k)" by (simp add: enc that(5))
    have "after_rasterize X f (before @ page # rest) = Inl (KeyError k)"
      using package_fail [OF m fits e, of rest] by (simp add: after_rasterize_def)
    with post show ?thesis by (simp add: HttpResponse_def)
  qed
  have inner: "fst (PdfToJpgView_post X (Parsed req) w) =
              (case convert_from_bytes X b (second_options f pp) of
                 Inr pages \<Rightarrow> outer_handlers (after_rasterize X f pages)
               | Inl e2 \<Rightarrow>
                   \<lparr>status = 500,
                    content = ''PDF conversion failed. The PDF might be corrupted, password-protected, or Poppler is not properly installed.'',
                    content_type = None, content_disposition = None\<rparr>)"
    if "FILES req ''pdf'' \<noteq> []" "convert_from_bytes X b (first_options f pp) = Inl e1"
  proof -
    note post = post_of_rasterize [OF that(1) assms(3), folded assms(1,2), OF refl]
    show ?thesis
      unfolding post rasterize_result that(2)
      by (simp add: HttpResponse_def conversion_failed_message_def split: sum.splits)
  qed
  from leaves missing encode inner show ?thesis by blast
qed

text \<open>
  A request without the document; a document whose second page raises \<^verbatim>\<open>KeyError\<close> in
  \<^verbatim>\<open>save\<close>; a document on which the first backend raises \<^verbatim>\<open>KeyError\<close> and the second returns
  a page; a document on which the second backend raises \<^verbatim>\<open>KeyError\<close> after the first
  timed out.
\<close>

theorem keyerror_outcomes_witness:
  \<open>FILES (images_request [''a'']) ''pdf'' = []
   \<and> fst (PdfToJpgView_post_try demo (Parsed (images_request [''a''])) fresh) = Inl (KeyError ''pdf'')
   \<and> fst (PdfToJpgView_post demo (Parsed (images_request [''a''])) fresh) =
       \<lparr>status = 400, content = ''No PDF file uploaded'',
        content_type = None, content_disposition = None\<rparr>
   \<and> FILES (pdf_request ''bad mode'' []) ''pdf'' \<noteq> []
   \<and> fst (rasterize demo ''jpg'' ''bad mode'' (fst (find_poppler demo fresh))
            (snd (find_poppler demo fresh))) = Inr [1, 13]
   \<and> image_save demo 1 (JPEG 95) = Inr ''jpeg1''
   \<and> image_save demo 13 (JPEG 95) = Inl (KeyError ''mode'')
   \<and> fst (PdfToJpgView_post demo (Parsed (pdf_request ''bad mode'' [])) fresh) =
       \<lparr>status = 400, content = ''No PDF file uploaded'',
        content_type = None, content_disposition = None\<rparr>
   \<and> convert_from_bytes demo ''flaky'' (first_options ''jpg'' (fst (find_poppler demo fresh))) =
       Inl (KeyError ''Root'')
   \<and> convert_from_bytes demo ''flaky'' (second_options ''jpg'' (fst (find_poppler demo fresh))) =
       Inr [4]
   \<and> fst (PdfToJpgView_post demo (Parsed (pdf_request ''flaky'' [])) fresh) =
       \<lparr>status = 200, content = ''jpeg4'', content_type = Some ''image/jpg'',
        content_disposition = Some ''attachment; filename="converted.jpg"''\<rparr>
   \<and> convert_from_bytes demo ''torn'' (first_options ''jpg'' (fst (find_poppler demo fresh))) =
       Inl (OtherException ''timed out'')
   \<and> convert_from_bytes demo ''torn'' (second_options ''jpg'' (fst (find_poppler demo fresh))) =
       Inl (KeyError ''Pages'')
   \<and> fst (PdfToJpgView_post demo (Parsed (pdf_request ''torn'' [])) fresh) =
       \<lparr>status = 500,
        content = ''PDF conversion failed. The PDF might be corrupted, password-protected, or Poppler is not properly installed.'',
        content_type = None, content_disposition = None\<rparr>\<close>
proof -
  let ?pp = "fst (find_poppler demo fresh)"
  have absent: "FILES (images_request [''a'']) ''pdf'' = []"
    by (simp add: images_request_def)
  have lookup: "fst (PdfToJpgView_post_try demo (Parsed (images_request [''a''])) fresh) =
               Inl (KeyError ''pdf'')"
    using absent by (simp add: PdfToJpgView_post_try_def getitem_def)
  have a: "fst (PdfToJpgView_post demo (Parsed (images_request [''a''])) fresh) =
       \<lparr>status = 400, content = ''No PDF file uploaded'',
        content_type = None, content_disposition = None\<rparr>"
    using keyerror_outcomes
      [where X = demo and w = fresh and req = "images_request [''a'']"
         and r = "Parsed (images_request [''a''])" and k = "''pdf''",
        OF refl refl prod.collapse [symmetric] refl] lookup by blast
  have bad: "fst (rasterize demo ''jpg'' ''bad mode'' ?pp (snd (find_poppler demo fresh))) =
               Inr [1, 13]"
    by (rule rasterize_first_ok) (simp add: demo_def)
  have s1: "image_save demo 1 (JPEG 95) = Inr ''jpeg1''"
    by (simp add: demo_def string_of_digit)
  have s13: "image_save demo 13 (JPEG 95) = Inl (KeyError ''mode'')"
    by (simp add: demo_def)
  have s4: "image_save demo 4 (JPEG 95) = Inr ''jpeg4''"
    by (simp add: demo_def string_of_digit)
  have jpg: "(if str_lower demo ''jpg'' = ''png'' then PNG 1 else JPEG 95) = JPEG 95"
    by (simp add: demo_tables ascii_lower_examples)
  have fits: "\<forall>i \<in> {1..length [1 :: nat]}.
      length (takeWhile (\<lambda>c. c \<noteq> CHR 0x00) (''page_'' @ string_of_nat i @ ''.'' @ ''jpg''))
        \<le> 65535"
  proof
    fix i :: nat
    assume "i \<in> {1..length [1 :: nat]}"
    then have "i = Suc 0" by auto
    then show "length (takeWhile (\<lambda>c. c \<noteq> CHR 0x00)
                  (''page_'' @ string_of_nat i @ ''.'' @ ''jpg'')) \<le> 65535"
      by (simp add: string_of_digit)
  qed
  have b: "fst (PdfToJpgView_post demo (Parsed (pdf_request ''bad mode'' [])) fresh) =
       \<lparr>status = 400, content = ''No PDF file uploaded'',
        content_type = None, content_disposition = None\<rparr>"
  proof -
    have "fst (rasterize demo ''jpg'' ''bad mode'' ?pp (snd (find_poppler demo fresh))) =
               Inr ([1] @ 13 # [])"
      using bad by simp
    moreover have "map (\<lambda>page. image_save demo page
                          (if str_lower demo ''jpg'' = ''png'' then PNG 1 else JPEG 95)) [1] =
                     map Inr [''jpeg1'']"
      unfolding jpg using s1 by simp
    moreover have "image_save demo 13
                     (if str_lower demo ''jpg'' = ''png'' then PNG 1 else JPEG 95) =
                     Inl (KeyError ''mode'')"
      unfolding jpg by (rule s13)
    ultimately show ?thesis
      using keyerror_outcomes
        [where X = demo and w = fresh and req = "pdf_request ''bad mode'' []"
           and before = "[1]" and page = 13 and rest = "[]" and datas = "[''jpeg1'']"
           and k = "''mode''",
          OF pdf_request_body [symmetric] pdf_request_default_format(1) [symmetric]
            prod.collapse [symmetric] refl]
        fits pdf_request_present [of "''bad mode''" "[]"] by blast
  qed
  have f1: "convert_from_bytes demo ''flaky'' (first_options ''jpg'' ?pp) = Inl (KeyError ''Root'')"
    by (simp add: demo_def first_options_def)
  have f2: "convert_from_bytes demo ''flaky'' (second_options ''jpg'' ?pp) = Inr [4]"
    by (simp add: demo_def second_options_def)
  have t1: "convert_from_bytes demo ''torn'' (first_options ''jpg'' ?pp) =
              Inl (OtherException ''timed out'')"
    by (simp add: demo_def first_options_def)
  have t2: "convert_from_bytes demo ''torn'' (second_options ''jpg'' ?pp) =
              Inl (KeyError ''Pages'')"
    by (simp add: demo_def second_options_def)
  have c: \<open>fst (PdfToJpgView_post demo (Parsed (pdf_request ''flaky'' [])) fresh) =
       \<lparr>status = 200, content = ''jpeg4'', content_type = Some ''image/jpg'',
        content_disposition = Some ''attachment; filename="converted.jpg"''\<rparr>\<close>
    using keyerror_outcomes
        [where X = demo and w = fresh and req = "pdf_request ''flaky'' []"
           and ?e1.0 = "KeyError ''Root''",
          OF pdf_request_body [symmetric] pdf_request_default_format(1) [symmetric]
            prod.collapse [symmetric] refl]
      pdf_request_present [of "''flaky''" "[]"] f1
    unfolding f2 sum.case one_page_jpg [OF demo_tables(1) s4] outer_handlers.simps by blast
  have d: "fst (PdfToJpgView_post demo (Parsed (pdf_request ''torn'' [])) fresh) =
       \<lparr>status = 500,
        content = ''PDF conversion failed. The PDF might be corrupted, password-protected, or Poppler is not properly installed.'',
        content_type = None, content_disposition = None\<rparr>"
    using keyerror_outcomes
        [where X = demo and w = fresh and req = "pdf_request ''torn'' []"
           and ?e1.0 = "OtherException ''timed out''",
          OF pdf_request_body [symmetric] pdf_request_default_format(1) [symmetric]
            prod.collapse [symmetric] refl]
      pdf_request_present [of "''torn''" "[]"] t1
    unfolding t2 sum.case by blast
  show ?thesis
    using absent lookup a bad s1 s13 b f1 f2 c t1 t2 d pdf_request_present [of "''bad mode''" "[]"]
    by simp
qed

text \<open>
  The claim as it stands fails for a \<^verbatim>\<open>KeyError\<close> raised by rasterization: when both
  attempts raise it, the answer is 500 with the conversion-failed message, not 400.
\<close>

theorem rasterization_keyerror_counterexample:
  "FILES (pdf_request ''odd'' []) ''pdf'' \<noteq> []
   \<and> convert_from_bytes demo ''odd'' (first_options ''jpg'' (fst (find_poppler demo fresh))) =
       Inl (KeyError ''Pages'')
   \<and> convert_from_bytes demo ''odd'' (second_options ''jpg'' (fst (find_poppler demo fresh))) =
       Inl (KeyError ''Pages'')
   \<and> fst (PdfToJpgView_post demo (Parsed (pdf_request ''odd'' [])) fresh) =
       \<lparr>status = 500,
        content = ''PDF conversion failed. The PDF might be corrupted, password-protected, or Poppler is not properly installed.'',
        content_type = None, content_disposition = None\<rparr>"
proof -
  let ?pp = "fst (find_poppler demo fresh)"
  have o1: "convert_from_bytes demo ''odd'' (first_options ''jpg'' ?pp) = Inl (KeyError ''Pages'')"
    by (simp add: demo_def)
  have o2: "convert_from_bytes demo ''odd'' (second_options ''jpg'' ?pp) = Inl (KeyError ''Pages'')"
    by (simp add: demo_def)
  have r: "fst (rasterize demo ''jpg'' ''odd'' ?pp (snd (find_poppler demo fresh))) =
             Inl (HttpResponse conversion_failed_message 500)"
    by (rule rasterize_both_fail [OF o1 o2])
  have "fst (PdfToJpgView_post demo (Parsed (pdf_request ''odd'' [])) fresh) =
          HttpResponse conversion_failed_message 500"
    using post_of_rasterize
        [where X = demo and w = fresh and req = "pdf_request ''odd'' []",
          OF pdf_request_present prod.collapse [symmetric] refl]
    unfolding pdf_request_body pdf_request_default_format r sum.case .
  then show ?thesis
    using o1 o2 pdf_request_present [of "''odd''" "[]"]
    by (simp add: HttpResponse_def conversion_failed_message_def)
qed

end
